theory Spec2Isabelle
  imports Complex_Main "HOL-Library.AList"
begin

section \<open>Python values used by \<open>server.py\<close>\<close>

text \<open>
  A Python \<open>str\<close> is modelled as a \<open>string\<close> whose characters are read as code points
  below 256.  The exceptions the script can raise are values of \<open>exn\<close>; an exception
  raised inside the external library or the CSV reader is \<open>ExternalError\<close>.
\<close>

datatype exn = IndexError | ValueError | ZeroDivisionError | ExternalError

text \<open>
  A Python \<open>float\<close>: a finite value, an infinity or a NaN.  A finite value is kept as the
  rational number it denotes; rounding to binary64 is not modelled.
\<close>

datatype pyfloat = Finite rat | PosInf | NegInf | NaN


subsection \<open>\<open>str.strip()\<close>, \<open>str.split(sep)\<close> and indexing\<close>

text \<open>\<open>str.strip()\<close> without argument removes the characters for which \<open>str.isspace\<close> holds.\<close>

definition py_isspace :: "char \<Rightarrow> bool" where
  "py_isspace c \<longleftrightarrow>
     c \<in> set [CHR 0x09, CHR 0x0A, CHR 0x0B, CHR 0x0C, CHR 0x0D,
              CHR 0x1C, CHR 0x1D, CHR 0x1E, CHR 0x1F, CHR 0x20, CHR 0x85, CHR 0xA0]"

definition py_strip :: "string \<Rightarrow> string" where
  "py_strip s = rev (dropWhile py_isspace (rev (dropWhile py_isspace s)))"

text \<open>
  \<open>s.split(sep)\<close> for a one-character separator: the fields between the separators, at
  least one field, empty fields kept.
\<close>

fun py_split :: "char \<Rightarrow> string \<Rightarrow> string list" where
  "py_split sep [] = [[]]"
| "py_split sep (c # cs) =
     (if c = sep then [] # py_split sep cs
      else (case py_split sep cs of
              [] \<Rightarrow> [[c]]
            | f # fs \<Rightarrow> (c # f) # fs))"

text \<open>\<open>xs[i]\<close> for a non-negative literal index \<open>i\<close>: IndexError out of range.\<close>

definition py_index :: "'a list \<Rightarrow> nat \<Rightarrow> exn + 'a" where
  "py_index xs i = (if i < length xs then Inr (xs ! i) else Inl IndexError)"

subsection \<open>The builtin \<open>float(str)\<close>\<close>

text \<open>
  The parsers below take the builtin \<open>float\<close> as a parameter \<open>fl\<close> (\<open>None\<close> is its
  ValueError).  \<open>py_float\<close> is the builtin on strings of code points below 256: it strips
  white space, checks that every underscore stands between two digits and removes it, and
  reads an optional sign followed by \<open>inf\<close>, \<open>infinity\<close>, \<open>nan\<close> (in any case) or a decimal
  number with an optional fraction and exponent.
\<close>

definition is_digit :: "char \<Rightarrow> bool" where
  "is_digit c \<longleftrightarrow> c \<in> set ''0123456789''"

definition digit_val :: "char \<Rightarrow> nat" where
  "digit_val c = of_char c - 48"

definition digits_val :: "string \<Rightarrow> nat" where
  "digits_val ds = foldl (\<lambda>n c. 10 * n + digit_val c) 0 ds"

definition float_isspace :: "char \<Rightarrow> bool" where
  "float_isspace c \<longleftrightarrow>
     c \<in> set [CHR 0x09, CHR 0x0A, CHR 0x0B, CHR 0x0C, CHR 0x0D, CHR 0x20, CHR 0x85, CHR 0xA0]"

fun underscores_ok :: "char \<Rightarrow> string \<Rightarrow> bool" where
  "underscores_ok prev [] = (prev \<noteq> CHR ''_'')"
| "underscores_ok prev (c # cs) =
     (if c = CHR ''_'' then is_digit prev \<and> underscores_ok c cs
      else (prev = CHR ''_'' \<longrightarrow> is_digit c) \<and> underscores_ok c cs)"

definition lower_ascii :: "char \<Rightarrow> char" where
  "lower_ascii c =
     (let n = of_char c :: nat in if 65 \<le> n \<and> n \<le> 90 then char_of (n + 32) else c)"

definition pow10 :: "int \<Rightarrow> rat" where
  "pow10 e = (if 0 \<le> e then 10 ^ nat e else 1 / 10 ^ nat (- e))"

definition parse_exponent :: "string \<Rightarrow> int option" where
  "parse_exponent s =
     (case s of
        [] \<Rightarrow> Some 0
      | c # r \<Rightarrow>
          if c = CHR ''e'' \<or> c = CHR ''E'' then
            (let neg = (r \<noteq> [] \<and> hd r = CHR ''-'');
                 ds = (if r \<noteq> [] \<and> (hd r = CHR ''+'' \<or> hd r = CHR ''-'') then tl r else r)
             in if ds \<noteq> [] \<and> (\<forall>d \<in> set ds. is_digit d)
                then Some (if neg then - int (digits_val ds) else int (digits_val ds))
                else None)
          else None)"

definition parse_number :: "string \<Rightarrow> rat option" where
  "parse_number s =
     (let ip = takeWhile is_digit s;
          r1 = dropWhile is_digit s;
          dot = (r1 \<noteq> [] \<and> hd r1 = CHR ''.'');
          fp = (if dot then takeWhile is_digit (tl r1) else []);
          r2 = (if dot then dropWhile is_digit (tl r1) else r1)
      in if ip = [] \<and> fp = [] then None
         else (case parse_exponent r2 of
                 None \<Rightarrow> None
               | Some e \<Rightarrow>
                   Some (of_nat (digits_val (ip @ fp)) * pow10 (e - int (length fp)))))"

definition py_float :: "string \<Rightarrow> pyfloat option" where
  "py_float s =
     (let t = rev (dropWhile float_isspace (rev (dropWhile float_isspace s)))
      in if \<not> underscores_ok (CHR 0x00) t then None
         else
           (let u = filter (\<lambda>c. c \<noteq> CHR ''_'') t;
                neg = (u \<noteq> [] \<and> hd u = CHR ''-'');
                b = (if u \<noteq> [] \<and> (hd u = CHR ''+'' \<or> hd u = CHR ''-'') then tl u else u);
                l = map lower_ascii b
            in if l = ''inf'' \<or> l = ''infinity'' then Some (if neg then NegInf else PosInf)
               else if l = ''nan'' then Some NaN
               else (case parse_number b of
                       None \<Rightarrow> None
                     | Some q \<Rightarrow> Some (Finite (if neg then - q else q)))))"

section \<open>Parsing the text inputs\<close>

text \<open>
  Lines 138--142 and 208--210: the grouping-columns text is split at commas, each field is
  stripped, and the list \<open>[""]\<close> is replaced by \<open>None\<close>.
\<close>

definition parse_grouping_columns :: "string \<Rightarrow> string list option" where
  "parse_grouping_columns s =
     (let cols = map py_strip (py_split (CHR '','') s)
      in if cols = [''''] then None else Some cols)"

text \<open>
  Lines 144--151 and 212--217: the thresholds text is split at commas and each field is
  stripped; the dict comprehension skips the empty fields and, for every other field,
  evaluates the key \<open>threshold.split("=")[0]\<close> and then the value
  \<open>float(threshold.split("=")[1])\<close>.  A \<open>dict\<close> is an association list in insertion
  order; storing under a key that is present replaces its value.
\<close>

definition threshold_item :: "(string \<Rightarrow> 'v option) \<Rightarrow> string \<Rightarrow> exn + (string \<times> 'v)" where
  "threshold_item fl threshold =
     (case py_index (py_split (CHR ''='') threshold) 0 of
        Inl e \<Rightarrow> Inl e
      | Inr key \<Rightarrow>
          (case py_index (py_split (CHR ''='') threshold) 1 of
             Inl e \<Rightarrow> Inl e
           | Inr rhs \<Rightarrow>
               (case fl rhs of
                  None \<Rightarrow> Inl ValueError
                | Some v \<Rightarrow> Inr (key, v))))"

fun dict_comprehension ::
  "(string \<Rightarrow> 'v option) \<Rightarrow> (string \<times> 'v) list \<Rightarrow> string list \<Rightarrow> exn + (string \<times> 'v) list" where
  "dict_comprehension fl d [] = Inr d"
| "dict_comprehension fl d (threshold # rest) =
     (if threshold \<noteq> ''''
      then (case threshold_item fl threshold of
              Inl e \<Rightarrow> Inl e
            | Inr (key, v) \<Rightarrow> dict_comprehension fl (AList.update key v d) rest)
      else dict_comprehension fl d rest)"

definition parse_thresholds :: "(string \<Rightarrow> 'v option) \<Rightarrow> string \<Rightarrow> exn + (string \<times> 'v) list" where
  "parse_thresholds fl s = dict_comprehension fl [] (map py_strip (py_split (CHR '','') s))"

section \<open>The report and the external collaborators\<close>

text \<open>
  Modelled from the spec: the class \<open>DataReport\<close> is declared in the external library
  \<open>data_fingerprint\<close>; section 3 of the spec lists its fields.  \<open>server.py\<close> reads
  \<open>df0_length\<close>, \<open>df1_length\<close>, \<open>comparable_columns\<close> and \<open>column_differences\<close>; the
  two source names, which it does not read, are left out.  The
  entries of the two difference lists are left open as type parameters.  The warnings of
  a comparison are not a field: the library raises them through Python's \<open>warnings\<close>
  module and \<open>get_differences\<close> records them (line 43).
\<close>

record ('cd, 'rd) data_report =
  df0_length :: int
  df1_length :: int
  comparable_columns :: "string list"
  column_differences :: "'cd list"
  row_differences :: "'rd list"

text \<open>
  The functions \<open>server.py\<close> imports from \<open>polars\<close> and \<open>data_fingerprint\<close> are
  parameters, collected in one record.  Each call takes the hidden state \<open>'s\<close> of the
  world outside the script and returns the new one.  The calls made inside
  \<open>warnings.catch_warnings\<close> also return the warnings they emit.  \<open>read_csv\<close> and
  \<open>get_data_report\<close> may raise (\<open>None\<close>).  A file, uploaded or typed, is its text.
\<close>

record ('df, 'cd, 'rd, 's) library =
  read_csv :: "string \<Rightarrow> 's \<Rightarrow> 'df option \<times> 's"
  get_data_report ::
    "'df \<Rightarrow> 'df \<Rightarrow> string \<Rightarrow> string \<Rightarrow> string list option \<Rightarrow> (string \<times> pyfloat) list \<Rightarrow> 's
       \<Rightarrow> ('cd, 'rd) data_report option \<times> string list \<times> 's"
  get_dataframe :: "('cd, 'rd) data_report \<Rightarrow> 's \<Rightarrow> 'df \<times> string list \<times> 's"
  get_number_of_row_differences :: "('cd, 'rd) data_report \<Rightarrow> 's \<Rightarrow> int \<times> string list \<times> 's"
  get_ratio_of_differences_per_source ::
    "('cd, 'rd) data_report \<Rightarrow> 's \<Rightarrow> (string \<times> pyfloat) list \<times> string list \<times> 's"
  get_column_difference_ratio ::
    "('cd, 'rd) data_report \<Rightarrow> 's \<Rightarrow> (string \<times> pyfloat) list \<times> string list \<times> 's"

text \<open>
  What a run of the script does, in order: the calls into the collaborators and the
  Streamlit calls that show something.  The input widgets are not events; their values are
  the inputs of the tabs.  \<open>St_metric\<close> keeps the label, the value, the delta colour and
  the number printed before \<open>" %"\<close> in the delta text.  \<open>St_bar_chart\<close> keeps the ratio
  dictionary, the names of the two axes and the colour list.
\<close>

datatype ('df, 'cd) frame = Columns "string list" | Dicts "'cd list" | Frame 'df

datatype ('df, 'cd, 'rd) event =
    Call_read_csv string
  | Call_get_data_report 'df 'df string string "string list option" "(string \<times> pyfloat) list"
  | Call_get_dataframe "('cd, 'rd) data_report"
  | Call_get_number_of_row_differences "('cd, 'rd) data_report"
  | Call_get_ratio_of_differences_per_source "('cd, 'rd) data_report"
  | Call_get_column_difference_ratio "('cd, 'rd) data_report"
  | St_header string
  | St_markdown string
  | St_info string
  | St_error string
  | St_warning string
  | St_spinner string
  | St_json "('cd, 'rd) data_report"
  | St_dataframe "('df, 'cd) frame"
  | St_metric string int string rat
  | St_bar_chart "(string \<times> pyfloat) list" string string "string list option"

text \<open>
  How a run ends: it returns, an exception leaves it, or \<open>st.stop()\<close> halts the script.
\<close>

datatype outcome = Returned | Raised exn | Stopped

section \<open>\<open>get_differences\<close>\<close>

text \<open>
  \<open>a / b\<close> on two \<open>int\<close>s raises ZeroDivisionError for \<open>b = 0\<close>.  \<open>round(x, ndigits)\<close>
  rounds to the nearest multiple of \<open>10 ^ - ndigits\<close>, a tie going to the even digit.
  Python rounds the binary64 value of \<open>x\<close>; here the rational value is rounded, so the two
  can differ where \<open>x\<close> is a tie that binary64 cannot hold.
\<close>

definition py_truediv :: "int \<Rightarrow> int \<Rightarrow> exn + rat" where
  "py_truediv a b = (if b = 0 then Inl ZeroDivisionError else Inr (of_int a / of_int b))"

definition round_half_even :: "rat \<Rightarrow> int" where
  "round_half_even x =
     (let f = \<lfloor>x\<rfloor>; r = x - of_int f
      in if r < 1 / 2 then f else if 1 / 2 < r then f + 1 else if even f then f else f + 1)"

definition py_round :: "rat \<Rightarrow> nat \<Rightarrow> rat" where
  "py_round x ndigits = of_int (round_half_even (x * 10 ^ ndigits)) / 10 ^ ndigits"

text \<open>Lines 63--67.\<close>

definition total_rows :: "('cd, 'rd) data_report \<Rightarrow> int" where
  "total_rows report =
     (if df0_length report + df1_length report > 0
      then df0_length report + df1_length report
      else 1)"

text \<open>
  Lines 42--101.  The list \<open>w\<close> of line 43 holds the warnings of every call made inside the
  \<open>with\<close> block, in the order of the calls; it is read at line 99 only.
\<close>

definition get_differences ::
  "('df, 'cd, 'rd, 's) library \<Rightarrow> 'df \<Rightarrow> 'df \<Rightarrow> string \<Rightarrow> string \<Rightarrow> string list option
     \<Rightarrow> (string \<times> pyfloat) list \<Rightarrow> 's \<Rightarrow> outcome \<times> ('df, 'cd, 'rd) event list \<times> 's" where
  "get_differences lib df1 df2 df1_name df2_name grouping_columns thresholds s0 =
     (case get_data_report lib df1 df2 df1_name df2_name grouping_columns thresholds s0 of
        (None, w1, s1) \<Rightarrow>
          (Raised ExternalError,
           [St_spinner ''Generating report...'',
            Call_get_data_report df1 df2 df1_name df2_name grouping_columns thresholds],
           s1)
      | (Some report, w1, s1) \<Rightarrow>
          (let (rows, w2, s2) = get_dataframe lib report s1;
               (number_of_differences, w3, s3) = get_number_of_row_differences lib report s2;
               (again, w4, s4) = get_number_of_row_differences lib report s3;
               shown =
                 [St_spinner ''Generating report...'',
                  Call_get_data_report df1 df2 df1_name df2_name grouping_columns thresholds,
                  St_markdown ''### Raw Report'',
                  St_json report,
                  St_markdown ''### Comparable columns'',
                  St_dataframe (Columns (comparable_columns report)),
                  St_markdown ''### Column differences'',
                  St_dataframe (Dicts (column_differences report)),
                  St_markdown ''### Row Differences'',
                  Call_get_dataframe report,
                  St_dataframe (Frame rows),
                  St_markdown ''### Number of row difference'',
                  Call_get_number_of_row_differences report,
                  Call_get_number_of_row_differences report]
           in (case py_truediv again (total_rows report) of
                 Inl e \<Rightarrow> (Raised e, shown, s4)
               | Inr q \<Rightarrow>
                   (let (diff_row_ratio_per_source, w5, s5) =
                          get_ratio_of_differences_per_source lib report s4;
                        shown' = shown @
                          [St_metric ''Number of Row Differences'' number_of_differences
                             (if number_of_differences > 0 then ''inverse'' else ''normal'')
                             (py_round (q * 100) 4),
                           St_info ''Delta is defined by dividing the number of row differences by the number of rows in the both data sources.'',
                           St_markdown ''### Ratio of Row Difference Per Source'',
                           Call_get_ratio_of_differences_per_source report,
                           St_bar_chart diff_row_ratio_per_source ''source'' ''ratio_of_differences''
                             (Some [''#0000FF'', ''#FF0000''])]
                    in (case grouping_columns of
                          None \<Rightarrow> (Returned, shown', s5)
                        | Some _ \<Rightarrow>
                            (let (diff_row_ratio_per_column, w6, s6) =
                                   get_column_difference_ratio lib report s5;
                                 w = w1 @ w2 @ w3 @ w4 @ w5 @ w6
                             in (Returned,
                                 shown' @
                                 ([St_markdown ''### Ratio of Row Difference Per Column'',
                                   Call_get_column_difference_ratio report,
                                   St_bar_chart diff_row_ratio_per_column ''column''
                                     ''ratio_of_differences'' None]
                                  @ map St_warning w),
                                 s6)))))))"

section \<open>The two tabs and the script\<close>

text \<open>The events \<open>pre\<close> happened before the run \<open>r\<close>.\<close>

definition after :: "'e list \<Rightarrow> outcome \<times> 'e list \<times> 's \<Rightarrow> outcome \<times> 'e list \<times> 's" where
  "after pre r = (case r of (out, evs, s) \<Rightarrow> (out, pre @ evs, s))"

record upload_inputs =
  df0_name_upload :: string
  df0_uploader :: "string option"
  df1_name_upload :: string
  df1_uploader :: "string option"
  grouping_columns_upload :: string
  thresholds_upload :: string
  calculate_differences_upload :: bool

text \<open>Lines 106--170.\<close>

definition upload_tab ::
  "(string \<Rightarrow> pyfloat option) \<Rightarrow> ('df, 'cd, 'rd, 's) library \<Rightarrow> upload_inputs \<Rightarrow> 's
     \<Rightarrow> outcome \<times> ('df, 'cd, 'rd) event list \<times> 's" where
  "upload_tab fl lib inp s0 =
     after [St_markdown ''### Upload your data'', St_markdown ''### Define thresholds'']
       (if \<not> calculate_differences_upload inp then (Returned, [], s0)
        else
          let grouping_columns = parse_grouping_columns (grouping_columns_upload inp)
          in
          case parse_thresholds fl (thresholds_upload inp) of
            Inl e \<Rightarrow> (Raised e, [], s0)
          | Inr thresholds \<Rightarrow>
              (case (df0_uploader inp, df1_uploader inp) of
                 (Some file0, Some file1) \<Rightarrow>
                   if df0_name_upload inp = '''' \<or> df1_name_upload inp = ''''
                   then (Stopped, [St_error ''Please enter names for both data sources''], s0)
                   else
                     (case read_csv lib file0 s0 of
                        (None, s1) \<Rightarrow> (Raised ExternalError, [Call_read_csv file0], s1)
                      | (Some df1_data, s1) \<Rightarrow>
                          (case read_csv lib file1 s1 of
                             (None, s2) \<Rightarrow>
                               (Raised ExternalError, [Call_read_csv file0, Call_read_csv file1], s2)
                           | (Some df2_data, s2) \<Rightarrow>
                               after [Call_read_csv file0, Call_read_csv file1]
                                 (get_differences lib df1_data df2_data
                                    (df0_name_upload inp) (df1_name_upload inp)
                                    grouping_columns thresholds s2)))
               | _ \<Rightarrow> (Stopped, [St_error ''Please upload both data sources''], s0)))"

record example_inputs =
  df0_name_raw :: string
  df0_data_raw :: string
  df1_name_raw :: string
  df1_data_raw :: string
  grouping_columns_raw :: string
  thresholds_raw :: string
  calculate_differences_raw :: bool

text \<open>Lines 172--228.\<close>

definition example_tab ::
  "(string \<Rightarrow> pyfloat option) \<Rightarrow> ('df, 'cd, 'rd, 's) library \<Rightarrow> example_inputs \<Rightarrow> 's
     \<Rightarrow> outcome \<times> ('df, 'cd, 'rd) event list \<times> 's" where
  "example_tab fl lib inp s0 =
     after [St_markdown ''### Use example data'', St_markdown ''### Define thresholds'']
       (if \<not> calculate_differences_raw inp then (Returned, [], s0)
        else
          let grouping_columns = parse_grouping_columns (grouping_columns_raw inp)
          in
          case parse_thresholds fl (thresholds_raw inp) of
            Inl e \<Rightarrow> (Raised e, [], s0)
          | Inr thresholds \<Rightarrow>
              (case read_csv lib (df0_data_raw inp) s0 of
                 (None, s1) \<Rightarrow> (Raised ExternalError, [Call_read_csv (df0_data_raw inp)], s1)
               | (Some df1_data, s1) \<Rightarrow>
                   (case read_csv lib (df1_data_raw inp) s1 of
                      (None, s2) \<Rightarrow>
                        (Raised ExternalError,
                         [Call_read_csv (df0_data_raw inp), Call_read_csv (df1_data_raw inp)], s2)
                    | (Some df2_data, s2) \<Rightarrow>
                        after [Call_read_csv (df0_data_raw inp), Call_read_csv (df1_data_raw inp)]
                          (get_differences lib df1_data df2_data
                             (df0_name_raw inp) (df1_name_raw inp)
                             grouping_columns thresholds s2))))"

text \<open>
  Lines 17--39, then the upload tab, then the example tab unless the upload tab ended the
  run.
\<close>

definition script ::
  "(string \<Rightarrow> pyfloat option) \<Rightarrow> ('df, 'cd, 'rd, 's) library \<Rightarrow> upload_inputs \<Rightarrow> example_inputs \<Rightarrow> 's
     \<Rightarrow> outcome \<times> ('df, 'cd, 'rd) event list \<times> 's" where
  "script fl lib up ex s0 =
     after [St_header ''DataFingerprint'',
            St_markdown
              (CHR 0x0A # ''    On this page you can try out the `data-fingerprint` Python library to see is it a good fit for''
               @ CHR 0x0A # ''    your project.''
               @ CHR 0x0A # ''    ''),
            St_info
              (CHR 0x0A # ''    The library is available on [PyPi](https://pypi.org/project/data-fingerprint/) and''
               @ CHR 0x0A # ''    [GitHub](https://github.com/SimpleSimpler/data_fingerprint).''
               @ CHR 0x0A # ''    ''),
            St_info
              (CHR 0x0A # ''    If you find any issues or bug, please reach out through GitHub''
               @ CHR 0x0A # ''    ''),
            St_markdown ''-----'',
            St_markdown ''## Try it out'']
       (case upload_tab fl lib up s0 of
          (Returned, evs, s1) \<Rightarrow> after evs (example_tab fl lib ex s1)
        | r \<Rightarrow> r)"

section \<open>Notions used in the statements\<close>

text \<open>The outcome and the events of a run.\<close>

definition ending :: "outcome \<times> 'e list \<times> 's \<Rightarrow> outcome" where
  "ending r = fst r"

definition trace :: "outcome \<times> 'e list \<times> 's \<Rightarrow> 'e list" where
  "trace r = fst (snd r)"

text \<open>
  The entries of a thresholds text are the stripped, non-empty fields between its commas.
  The key of an entry is \<open>threshold.split("=")[0]\<close>; the field the code reads as its
  value is \<open>threshold.split("=")[1]\<close>, which does not exist when the entry has no \<open>=\<close>.
\<close>

definition threshold_entries :: "string \<Rightarrow> string list" where
  "threshold_entries s = filter (\<lambda>t. t \<noteq> '''') (map py_strip (py_split (CHR '','') s))"

definition entry_key :: "string \<Rightarrow> string" where
  "entry_key e = (case py_split (CHR ''='') e of [] \<Rightarrow> '''' | k # _ \<Rightarrow> k)"

definition entry_value :: "string \<Rightarrow> string option" where
  "entry_value e = (case py_split (CHR ''='') e of _ # r # _ \<Rightarrow> Some r | _ \<Rightarrow> None)"

text \<open>
  An entry has no numeric field when it has no \<open>=\<close> or when \<open>float\<close> rejects the field
  the code reads, \<open>threshold.split("=")[1]\<close>.
\<close>

definition no_numeric_field :: "(string \<Rightarrow> 'v option) \<Rightarrow> string \<Rightarrow> bool" where
  "no_numeric_field fl e = (case entry_value e of None \<Rightarrow> True | Some r \<Rightarrow> fl r = None)"

text \<open>
  The right-hand side of an entry is the whole text after its first \<open>=\<close>.  An entry is
  malformed when it has no \<open>=\<close> or when \<open>float\<close> rejects its right-hand side.
\<close>

definition right_hand_side :: "string \<Rightarrow> string option" where
  "right_hand_side e =
     (if CHR ''='' \<in> set e then Some (tl (dropWhile (\<lambda>c. c \<noteq> CHR ''='') e)) else None)"

definition malformed :: "(string \<Rightarrow> 'v option) \<Rightarrow> string \<Rightarrow> bool" where
  "malformed fl e = (case right_hand_side e of None \<Rightarrow> True | Some r \<Rightarrow> fl r = None)"

text \<open>
  Modelled from the spec: \<open>get_number_of_row_differences\<close> is a function of the external
  library \<open>data_fingerprint\<close>.  Section 4.5 of the spec defines the total row differences
  as the count of the row-level entries marked differing and requires the derivation to be
  pure: the same report gives the same result at every call.  The first definition is that
  requirement on a function with a hidden state; the second is the count, which emits no
  warning and leaves the state as it is.
\<close>

definition pure_derivation :: "('r \<Rightarrow> 's \<Rightarrow> 'a \<times> 'w \<times> 's) \<Rightarrow> bool" where
  "pure_derivation f \<longleftrightarrow> (\<forall>r s s'. fst (f r s) = fst (f r s'))"

definition spec_get_number_of_row_differences ::
  "('cd, 'rd) data_report \<Rightarrow> 's \<Rightarrow> int \<times> string list \<times> 's" where
  "spec_get_number_of_row_differences report s = (int (length (row_differences report)), [], s)"

text \<open>
  A small library for running the script on concrete inputs: \<open>get_data_report\<close> returns
  the given report and emits the given warnings, the CSV reader rejects the empty text,
  and the hidden state counts the calls that change it.
\<close>

definition sample_library ::
  "(nat, nat) data_report \<Rightarrow> string list \<Rightarrow> (string, nat, nat, nat) library" where
  "sample_library report ws =
     \<lparr> read_csv = (\<lambda>text s. (if text = '''' then None else Some text, Suc s)),
       get_data_report = (\<lambda>df1 df2 n1 n2 gc th s. (Some report, ws, Suc s)),
       get_dataframe = (\<lambda>r s. (''rows'', [], Suc s)),
       get_number_of_row_differences = spec_get_number_of_row_differences,
       get_ratio_of_differences_per_source = (\<lambda>r s. ([], [], Suc s)),
       get_column_difference_ratio = (\<lambda>r s. ([], [], Suc s)) \<rparr>"

text \<open>
  Concrete inputs: a report of two sources with rows, a report of two empty sources, and
  the two tabs with the button pressed.
\<close>

definition sample_report :: "(nat, nat) data_report" where
  "sample_report =
     \<lparr> df0_length = 2, df1_length = 1, comparable_columns = [''id'', ''val''],
       column_differences = [0], row_differences = [0, 1] \<rparr>"

definition empty_report :: "(nat, nat) data_report" where
  "empty_report =
     \<lparr> df0_length = 0, df1_length = 0, comparable_columns = [''id'', ''val''],
       column_differences = [], row_differences = [] \<rparr>"

definition sample_upload ::
  "string option \<Rightarrow> string option \<Rightarrow> string \<Rightarrow> string \<Rightarrow> string \<Rightarrow> string \<Rightarrow> upload_inputs" where
  "sample_upload file0 file1 name0 name1 gc th =
     \<lparr> df0_name_upload = name0, df0_uploader = file0,
       df1_name_upload = name1, df1_uploader = file1,
       grouping_columns_upload = gc, thresholds_upload = th,
       calculate_differences_upload = True \<rparr>"

definition sample_example :: "string \<Rightarrow> string \<Rightarrow> string \<Rightarrow> string \<Rightarrow> example_inputs" where
  "sample_example name0 name1 gc th =
     \<lparr> df0_name_raw = name0, df0_data_raw = ''id,val'',
       df1_name_raw = name1, df1_data_raw = ''id,val'',
       grouping_columns_raw = gc, thresholds_raw = th,
       calculate_differences_raw = True \<rparr>"

section \<open>The parsers\<close>

subsection \<open>Splitting and stripping\<close>

lemma py_split_not_Nil: "py_split c s \<noteq> []"
  by (induction s) (auto split: list.splits)

lemma py_split_no_sep: "c \<notin> set s \<Longrightarrow> py_split c s = [s]"
  by (induction s) auto

lemma py_split_sep: "c \<in> set s \<Longrightarrow> 2 \<le> length (py_split c s)"
proof (induction s)
  case Nil
  then show ?case by simp
next
  case (Cons x xs)
  show ?case
  proof (cases "x = c")
    case True
    have "py_split c xs \<noteq> []" by (rule py_split_not_Nil)
    then have "1 \<le> length (py_split c xs)" by (cases "py_split c xs") auto
    with True show ?thesis by simp
  next
    case False
    with Cons have "2 \<le> length (py_split c xs)" by simp
    with False show ?thesis by (auto split: list.splits)
  qed
qed

lemma dropWhile_rev_dropWhile_Nil:
  "dropWhile P (rev (dropWhile P s)) = [] \<longleftrightarrow> (\<forall>x \<in> set s. P x)"
proof
  assume a: "dropWhile P (rev (dropWhile P s)) = []"
  show "\<forall>x \<in> set s. P x"
  proof (cases "dropWhile P s")
    case Nil
    then show ?thesis by (simp add: dropWhile_eq_Nil_conv)
  next
    case (Cons y ys)
    then have "\<not> P y" using hd_dropWhile [of P s] by simp
    moreover from a Cons have "\<forall>x \<in> set (y # ys). P x"
      by (simp add: dropWhile_eq_Nil_conv)
    ultimately show ?thesis by simp
  qed
next
  assume "\<forall>x \<in> set s. P x"
  then have "dropWhile P s = []" by (simp add: dropWhile_eq_Nil_conv)
  then show "dropWhile P (rev (dropWhile P s)) = []"
    by (simp only: rev.simps dropWhile.simps)
qed

lemma py_strip_Nil_iff: "py_strip s = [] \<longleftrightarrow> (\<forall>c \<in> set s. py_isspace c)"
  unfolding py_strip_def rev_is_Nil_conv by (rule dropWhile_rev_dropWhile_Nil)

lemma comma_not_space: "\<not> py_isspace (CHR '','')"
  by (simp add: py_isspace_def)

subsection \<open>The dict comprehension\<close>

lemma threshold_item_eq:
  "threshold_item fl e =
     (case entry_value e of
        None \<Rightarrow> Inl IndexError
      | Some r \<Rightarrow> (case fl r of None \<Rightarrow> Inl ValueError | Some v \<Rightarrow> Inr (entry_key e, v)))"
proof (cases "py_split (CHR ''='') e")
  case Nil
  then show ?thesis using py_split_not_Nil [of "CHR ''=''" e] by simp
next
  case (Cons k rest)
  then show ?thesis
    by (cases rest)
      (simp_all add: threshold_item_def py_index_def entry_value_def entry_key_def
         split: option.splits)
qed

lemma dict_comprehension_filter:
  "dict_comprehension fl d (filter (\<lambda>t. t \<noteq> '''') ts) = dict_comprehension fl d ts"
  by (induction ts arbitrary: d) (auto split: sum.splits)

lemma parse_thresholds_entries:
  "parse_thresholds fl s = dict_comprehension fl [] (threshold_entries s)"
  by (simp add: parse_thresholds_def threshold_entries_def dict_comprehension_filter)

lemma threshold_entries_nonempty: "e \<in> set (threshold_entries s) \<Longrightarrow> e \<noteq> ''''"
  by (simp add: threshold_entries_def)

lemma dict_comprehension_ok:
  "(\<forall>e \<in> set es. e \<noteq> '''' \<longrightarrow> \<not> no_numeric_field fl e) \<Longrightarrow> \<exists>d'. dict_comprehension fl d es = Inr d'"
proof (induction es arbitrary: d)
  case Nil
  then show ?case by simp
next
  case (Cons e es)
  show ?case
  proof (cases "e = ''''")
    case True
    with Cons show ?thesis by simp
  next
    case False
    with Cons.prems have "\<not> no_numeric_field fl e" by simp
    then obtain r v where "entry_value e = Some r" "fl r = Some v"
      by (auto simp: no_numeric_field_def split: option.splits)
    then have "threshold_item fl e = Inr (entry_key e, v)"
      by (simp add: threshold_item_eq)
    with False Cons show ?thesis by simp
  qed
qed

lemma dict_comprehension_fail:
  "e \<in> set es \<Longrightarrow> e \<noteq> '''' \<Longrightarrow> no_numeric_field fl e \<Longrightarrow>
     dict_comprehension fl d es = Inl IndexError \<or> dict_comprehension fl d es = Inl ValueError"
proof (induction es arbitrary: d)
  case Nil
  then show ?case by simp
next
  case (Cons x xs)
  show ?case
  proof (cases "x = ''''")
    case True
    with Cons show ?thesis by auto
  next
    case False
    show ?thesis
    proof (cases "threshold_item fl x")
      case (Inl err)
      then have "err = IndexError \<or> err = ValueError"
        by (auto simp: threshold_item_eq split: option.splits)
      with Inl False show ?thesis by auto
    next
      case (Inr kv)
      then have "\<not> no_numeric_field fl x"
        by (auto simp: threshold_item_eq no_numeric_field_def split: option.splits)
      with Cons.prems have "e \<in> set xs" by auto
      with Cons Inr False show ?thesis by (cases kv) auto
    qed
  qed
qed

lemma dict_comprehension_keep:
  "dict_comprehension fl d post = Inr d' \<Longrightarrow>
   (\<forall>t \<in> set post. t \<noteq> '''' \<longrightarrow> entry_key t \<noteq> k) \<Longrightarrow> map_of d' k = map_of d k"
proof (induction post arbitrary: d)
  case Nil
  then show ?case by simp
next
  case (Cons x xs)
  show ?case
  proof (cases "x = ''''")
    case True
    with Cons show ?thesis by simp
  next
    case False
    with Cons.prems(1) obtain v where
      item: "threshold_item fl x = Inr (entry_key x, v)" and
      rest: "dict_comprehension fl (AList.update (entry_key x) v d) xs = Inr d'"
      by (auto simp: threshold_item_eq split: option.splits sum.splits)
    from Cons.prems(2) False have "entry_key x \<noteq> k" by simp
    moreover from Cons.IH [OF rest] Cons.prems(2)
    have "map_of d' k = map_of (AList.update (entry_key x) v d) k" by simp
    ultimately show ?thesis by (simp add: update_conv')
  qed
qed

lemma dict_comprehension_last:
  "dict_comprehension fl d (pre @ e # post) = Inr d' \<Longrightarrow> e \<noteq> '''' \<Longrightarrow>
   (\<forall>t \<in> set post. t \<noteq> '''' \<longrightarrow> entry_key t \<noteq> entry_key e) \<Longrightarrow>
   \<exists>r. entry_value e = Some r \<and> map_of d' (entry_key e) = fl r"
proof (induction pre arbitrary: d)
  case Nil
  from Nil.prems(1,2) obtain r v where
    val: "entry_value e = Some r" "fl r = Some v" and
    rest: "dict_comprehension fl (AList.update (entry_key e) v d) post = Inr d'"
    by (auto simp: threshold_item_eq split: option.splits sum.splits)
  from dict_comprehension_keep [OF rest Nil.prems(3)]
  have "map_of d' (entry_key e) = Some v" by (simp add: update_conv')
  with val show ?case by simp
next
  case (Cons x xs)
  show ?case
  proof (cases "x = ''''")
    case True
    with Cons show ?thesis by simp
  next
    case False
    with Cons.prems(1) obtain v where
      "dict_comprehension fl (AList.update (entry_key x) v d) (xs @ e # post) = Inr d'"
      by (auto simp: threshold_item_eq split: option.splits sum.splits)
    from Cons.IH [OF this Cons.prems(2,3)] show ?thesis .
  qed
qed


lemma dict_comprehension_keys:
  "dict_comprehension fl d es = Inr d' \<Longrightarrow>
   fst ` set d' = fst ` set d \<union> entry_key ` {e \<in> set es. e \<noteq> ''''}"
proof (induction es arbitrary: d)
  case Nil
  then show ?case by simp
next
  case (Cons x xs)
  show ?case
  proof (cases "x = ''''")
    case True
    with Cons show ?thesis by auto
  next
    case False
    with Cons.prems obtain v where
      rest: "dict_comprehension fl (AList.update (entry_key x) v d) xs = Inr d'"
      by (auto simp: threshold_item_eq split: option.splits sum.splits)
    have "fst ` set (AList.update (entry_key x) v d) = insert (entry_key x) (fst ` set d)"
      by (simp add: dom_update)
    with Cons.IH [OF rest] False show ?thesis by auto
  qed
qed


lemma py_split_append: "c \<notin> set k \<Longrightarrow> py_split c (k @ c # t) = k # py_split c t"
  by (induction k) auto

lemma entry_value_None_iff: "entry_value e = None \<longleftrightarrow> CHR ''='' \<notin> set e"
proof (cases "CHR ''='' \<in> set e")
  case True
  from py_split_sep [OF True] obtain k r rest where "py_split (CHR ''='') e = k # r # rest"
    by (cases "py_split (CHR ''='') e"; cases "tl (py_split (CHR ''='') e)") auto
  with True show ?thesis by (simp add: entry_value_def)
next
  case False
  then show ?thesis by (simp add: entry_value_def py_split_no_sep)
qed

section \<open>Runs of the tabs\<close>

lemma trace_after: "trace (after pre r) = pre @ trace r"
  by (cases r) (simp add: after_def trace_def)

lemma ending_after: "ending (after pre r) = ending r"
  by (cases r) (simp add: after_def ending_def)

lemma get_differences_call:
  "Call_get_data_report a b n m g t \<in> set (trace (get_differences lib d1 d2 n1 n2 gc th s)) \<longleftrightarrow>
     a = d1 \<and> b = d2 \<and> n = n1 \<and> m = n2 \<and> g = gc \<and> t = th"
  by (auto simp: get_differences_def trace_def Let_def
        split: prod.splits option.splits sum.splits)

lemma get_differences_no_read_csv:
  "Call_read_csv f \<notin> set (trace (get_differences lib d1 d2 n1 n2 gc th s))"
  by (auto simp: get_differences_def trace_def Let_def
        split: prod.splits option.splits sum.splits)

lemma get_differences_no_error:
  "St_error msg \<notin> set (trace (get_differences lib d1 d2 n1 n2 gc th s))"
  by (auto simp: get_differences_def trace_def Let_def
        split: prod.splits option.splits sum.splits)

lemma example_tab_call:
  "Call_get_data_report a b n m g t \<in> set (trace (example_tab fl lib inp s0)) \<Longrightarrow>
     calculate_differences_raw inp \<and>
     n = df0_name_raw inp \<and> m = df1_name_raw inp \<and>
     g = parse_grouping_columns (grouping_columns_raw inp) \<and>
     parse_thresholds fl (thresholds_raw inp) = Inr t"
  by (auto simp: example_tab_def trace_after get_differences_call Let_def trace_def [of "(x, y, z)" for x y z]
        split: if_splits prod.splits option.splits sum.splits)

lemma upload_tab_call:
  "Call_get_data_report a b n m g t \<in> set (trace (upload_tab fl lib inp s0)) \<Longrightarrow>
     calculate_differences_upload inp \<and>
     df0_uploader inp \<noteq> None \<and> df1_uploader inp \<noteq> None \<and>
     df0_name_upload inp \<noteq> '''' \<and> df1_name_upload inp \<noteq> '''' \<and>
     n = df0_name_upload inp \<and> m = df1_name_upload inp \<and>
     g = parse_grouping_columns (grouping_columns_upload inp) \<and>
     parse_thresholds fl (thresholds_upload inp) = Inr t"
  by (auto simp: upload_tab_def trace_after get_differences_call Let_def trace_def [of "(x, y, z)" for x y z]
        split: if_splits prod.splits option.splits sum.splits)

lemma example_tab_reaches:
  "calculate_differences_raw inp \<Longrightarrow>
   parse_thresholds fl (thresholds_raw inp) = Inr th \<Longrightarrow>
   read_csv lib (df0_data_raw inp) s0 = (Some d1, s1) \<Longrightarrow>
   read_csv lib (df1_data_raw inp) s1 = (Some d2, s2) \<Longrightarrow>
   Call_get_data_report d1 d2 (df0_name_raw inp) (df1_name_raw inp)
       (parse_grouping_columns (grouping_columns_raw inp)) th
     \<in> set (trace (example_tab fl lib inp s0))"
  by (simp add: example_tab_def trace_after get_differences_call Let_def)

lemma upload_tab_reaches:
  "calculate_differences_upload inp \<Longrightarrow>
   parse_thresholds fl (thresholds_upload inp) = Inr th \<Longrightarrow>
   df0_uploader inp = Some f0 \<Longrightarrow> df1_uploader inp = Some f1 \<Longrightarrow>
   df0_name_upload inp \<noteq> '''' \<Longrightarrow> df1_name_upload inp \<noteq> '''' \<Longrightarrow>
   read_csv lib f0 s0 = (Some d1, s1) \<Longrightarrow>
   read_csv lib f1 s1 = (Some d2, s2) \<Longrightarrow>
   Call_get_data_report d1 d2 (df0_name_upload inp) (df1_name_upload inp)
       (parse_grouping_columns (grouping_columns_upload inp)) th
     \<in> set (trace (upload_tab fl lib inp s0))"
  by (simp add: upload_tab_def trace_after get_differences_call Let_def)

lemma example_tab_parse_error:
  "calculate_differences_raw inp \<Longrightarrow> parse_thresholds fl (thresholds_raw inp) = Inl err \<Longrightarrow>
   example_tab fl lib inp s0 =
     (Raised err, [St_markdown ''### Use example data'', St_markdown ''### Define thresholds''], s0)"
  by (simp add: example_tab_def after_def Let_def)

lemma upload_tab_parse_error:
  "calculate_differences_upload inp \<Longrightarrow> parse_thresholds fl (thresholds_upload inp) = Inl err \<Longrightarrow>
   upload_tab fl lib inp s0 =
     (Raised err, [St_markdown ''### Upload your data'', St_markdown ''### Define thresholds''], s0)"
  by (simp add: upload_tab_def after_def Let_def)

section \<open>Evaluation on concrete inputs\<close>

lemmas parser_eval =
  parse_thresholds_def parse_grouping_columns_def threshold_item_def threshold_entries_def
  entry_key_def entry_value_def no_numeric_field_def py_index_def py_strip_def py_isspace_def

lemmas float_eval =
  py_float_def float_isspace_def is_digit_def parse_number_def parse_exponent_def
  digits_val_def digit_val_def pow10_def lower_ascii_def Let_def

lemma sample_read_csv:
  "read_csv (sample_library report ws) ''id,val'' s = (Some ''id,val'', Suc s)"
  by (simp add: sample_library_def)

section \<open>The claims about the parsers\<close>

text \<open>
  Claim C1.  A thresholds text whose entries all have a numeric field after their first
  \<open>=\<close>, as every text of entries \<open>column=value\<close> with numeric values has, is parsed into a
  mapping: a column is mapped to a value exactly when the last entry that names the
  column has a field of that value.  The
  empty text gives the empty mapping.  The thresholds of every call of the core made by
  either tab are the result of this parser.
\<close>

theorem thresholds_parse:
  "((\<forall>e \<in> set (threshold_entries s). \<not> no_numeric_field fl e) \<longrightarrow>
      (\<exists>d. parse_thresholds fl s = Inr d \<and>
           (\<forall>k v. map_of d k = Some v \<longleftrightarrow>
              (\<exists>pre e post. threshold_entries s = pre @ e # post \<and> entry_key e = k \<and>
                  k \<notin> entry_key ` set post \<and>
                  (\<exists>r. entry_value e = Some r \<and> fl r = Some v))))) \<and>
   parse_thresholds fl '''' = Inr [] \<and>
   (Call_get_data_report a b n m g t \<in> set (trace (upload_tab fl lib up s0)) \<longrightarrow>
      parse_thresholds fl (thresholds_upload up) = Inr t) \<and>
   (Call_get_data_report a' b' n' m' g' t' \<in> set (trace (example_tab fl lib ex s0')) \<longrightarrow>
      parse_thresholds fl (thresholds_raw ex) = Inr t')"
proof (intro conjI impI)
  assume wf: "\<forall>e \<in> set (threshold_entries s). \<not> no_numeric_field fl e"
  then obtain d where d: "dict_comprehension fl [] (threshold_entries s) = Inr d"
    using dict_comprehension_ok [of "threshold_entries s" fl "[]"] by auto
  have "map_of d k = Some v \<longleftrightarrow>
          (\<exists>pre e post. threshold_entries s = pre @ e # post \<and> entry_key e = k \<and>
              k \<notin> entry_key ` set post \<and>
              (\<exists>r. entry_value e = Some r \<and> fl r = Some v))" for k v
  proof
    assume m: "map_of d k = Some v"
    then have "k \<in> fst ` set d" by (metis map_of_SomeD fst_conv imageI)
    with dict_comprehension_keys [OF d]
    have "\<exists>e \<in> set (threshold_entries s). entry_key e = k" by auto
    from split_list_last_prop [OF this]
    obtain pre e post where sp: "threshold_entries s = pre @ e # post" "entry_key e = k"
      "\<forall>z \<in> set post. entry_key z \<noteq> k"
      by blast
    have "e \<in> set (threshold_entries s)" using sp(1) by simp
    then have ne: "e \<noteq> ''''" by (rule threshold_entries_nonempty)
    from d sp(1) have run: "dict_comprehension fl [] (pre @ e # post) = Inr d" by simp
    from sp have later: "\<forall>t \<in> set post. t \<noteq> '''' \<longrightarrow> entry_key t \<noteq> entry_key e" by simp
    from dict_comprehension_last [OF run ne later] sp(2) m
    obtain r where val: "entry_value e = Some r" "fl r = Some v" by auto
    from sp(3) have "k \<notin> entry_key ` set post" by auto
    with sp(1,2) val show "\<exists>pre e post. threshold_entries s = pre @ e # post \<and> entry_key e = k \<and>
              k \<notin> entry_key ` set post \<and>
              (\<exists>r. entry_value e = Some r \<and> fl r = Some v)"
      by blast
  next
    assume "\<exists>pre e post. threshold_entries s = pre @ e # post \<and> entry_key e = k \<and>
              k \<notin> entry_key ` set post \<and>
              (\<exists>r. entry_value e = Some r \<and> fl r = Some v)"
    then obtain pre e post r where sp: "threshold_entries s = pre @ e # post" "entry_key e = k"
      "k \<notin> entry_key ` set post" "entry_value e = Some r" "fl r = Some v"
      by blast
    have "e \<in> set (threshold_entries s)" using sp(1) by simp
    then have ne: "e \<noteq> ''''" by (rule threshold_entries_nonempty)
    from d sp(1) have run: "dict_comprehension fl [] (pre @ e # post) = Inr d" by simp
    from sp(2,3) have later: "\<forall>t \<in> set post. t \<noteq> '''' \<longrightarrow> entry_key t \<noteq> entry_key e"
      by (metis imageI)
    from dict_comprehension_last [OF run ne later] sp(2,4,5)
    show "map_of d k = Some v" by auto
  qed
  with d show "\<exists>d. parse_thresholds fl s = Inr d \<and>
           (\<forall>k v. map_of d k = Some v \<longleftrightarrow>
              (\<exists>pre e post. threshold_entries s = pre @ e # post \<and> entry_key e = k \<and>
                  k \<notin> entry_key ` set post \<and>
                  (\<exists>r. entry_value e = Some r \<and> fl r = Some v)))"
    by (simp add: parse_thresholds_entries)
next
  show "parse_thresholds fl '''' = Inr []"
    by (simp add: parse_thresholds_def py_strip_def)
next
  assume "Call_get_data_report a b n m g t \<in> set (trace (upload_tab fl lib up s0))"
  then show "parse_thresholds fl (thresholds_upload up) = Inr t"
    by (simp add: upload_tab_call)
next
  assume "Call_get_data_report a' b' n' m' g' t' \<in> set (trace (example_tab fl lib ex s0'))"
  then show "parse_thresholds fl (thresholds_raw ex) = Inr t'"
    by (simp add: example_tab_call)
qed

theorem thresholds_parse_witness:
  "threshold_entries ''a=1, b=0.5'' = [''a=1'', ''b=0.5''] \<and>
   \<not> no_numeric_field py_float ''a=1'' \<and> \<not> no_numeric_field py_float ''b=0.5'' \<and>
   (\<exists>d. parse_thresholds py_float ''a=1, b=0.5'' = Inr d \<and>
        map_of d ''b'' = Some (Finite (1 / 2))) \<and>
   parse_thresholds py_float '''' = Inr []"
proof -
  have es: "threshold_entries ''a=1, b=0.5'' = [''a=1'', ''b=0.5'']"
    by (simp add: parser_eval)
  have m1: "\<not> no_numeric_field py_float ''a=1''" by (simp add: parser_eval float_eval)
  have m2: "\<not> no_numeric_field py_float ''b=0.5''" by (simp add: parser_eval float_eval)
  from es m1 m2 have wf: "\<forall>e \<in> set (threshold_entries ''a=1, b=0.5''). \<not> no_numeric_field py_float e"
    by simp
  from thresholds_parse [where s = "''a=1, b=0.5''" and fl = py_float, THEN conjunct1, THEN mp, OF wf]
  obtain d where d: "parse_thresholds py_float ''a=1, b=0.5'' = Inr d"
    and ch: "\<forall>k v. map_of d k = Some v \<longleftrightarrow>
              (\<exists>pre e post. threshold_entries ''a=1, b=0.5'' = pre @ e # post \<and> entry_key e = k \<and>
                  k \<notin> entry_key ` set post \<and>
                  (\<exists>r. entry_value e = Some r \<and> py_float r = Some v))"
    by blast
  have "threshold_entries ''a=1, b=0.5'' = [''a=1''] @ ''b=0.5'' # [] \<and> entry_key ''b=0.5'' = ''b'' \<and>
          ''b'' \<notin> entry_key ` set [] \<and>
          (\<exists>r. entry_value ''b=0.5'' = Some r \<and> py_float r = Some (Finite (1 / 2)))"
    by (simp add: parser_eval float_eval)
  then have "\<exists>pre e post. threshold_entries ''a=1, b=0.5'' = pre @ e # post \<and> entry_key e = ''b'' \<and>
                  ''b'' \<notin> entry_key ` set post \<and>
                  (\<exists>r. entry_value e = Some r \<and> py_float r = Some (Finite (1 / 2)))"
    by blast
  with ch have "map_of d ''b'' = Some (Finite (1 / 2))" by blast
  with d have "\<exists>d. parse_thresholds py_float ''a=1, b=0.5'' = Inr d \<and>
        map_of d ''b'' = Some (Finite (1 / 2))" by blast
  moreover have "parse_thresholds py_float '''' = Inr []"
    using thresholds_parse [where fl = py_float, THEN conjunct2, THEN conjunct1] .
  ultimately show ?thesis using es m1 m2 by blast
qed

text \<open>
  Claim C4, as amended.  The grouping-columns text gives \<open>None\<close> when it is empty or holds
  white space only; otherwise it gives the list of the stripped fields between its commas,
  in the order written.  The grouping columns of every call of the core made by either
  tab are the result of this parser.
\<close>

theorem grouping_columns_parse:
  "parse_grouping_columns s =
     (if \<forall>c \<in> set s. py_isspace c then None
      else Some (map py_strip (py_split (CHR '','') s))) \<and>
   (Call_get_data_report a b n m g t \<in> set (trace (upload_tab fl lib up s0)) \<longrightarrow>
      g = parse_grouping_columns (grouping_columns_upload up)) \<and>
   (Call_get_data_report a' b' n' m' g' t' \<in> set (trace (example_tab fl lib ex s0')) \<longrightarrow>
      g' = parse_grouping_columns (grouping_columns_raw ex))"
proof (intro conjI impI)
  show "parse_grouping_columns s =
     (if \<forall>c \<in> set s. py_isspace c then None
      else Some (map py_strip (py_split (CHR '','') s)))"
  proof (cases "CHR '','' \<in> set s")
    case True
    then have "2 \<le> length (map py_strip (py_split (CHR '','') s))"
      by (simp add: py_split_sep)
    then have "map py_strip (py_split (CHR '','') s) \<noteq> ['''']"
      by (cases "map py_strip (py_split (CHR '','') s)") auto
    moreover from True have "\<not> (\<forall>c \<in> set s. py_isspace c)"
      using comma_not_space by blast
    ultimately show ?thesis by (simp add: parse_grouping_columns_def)
  next
    case False
    then have "py_split (CHR '','') s = [s]" by (rule py_split_no_sep)
    then show ?thesis
      using py_strip_Nil_iff [of s] by (simp add: parse_grouping_columns_def)
  qed
next
  assume "Call_get_data_report a b n m g t \<in> set (trace (upload_tab fl lib up s0))"
  then show "g = parse_grouping_columns (grouping_columns_upload up)"
    by (simp add: upload_tab_call)
next
  assume "Call_get_data_report a' b' n' m' g' t' \<in> set (trace (example_tab fl lib ex s0'))"
  then show "g' = parse_grouping_columns (grouping_columns_raw ex)"
    by (simp add: example_tab_call)
qed

theorem grouping_columns_parse_witness:
  "parse_grouping_columns ''  '' = None \<and>
   parse_grouping_columns ''id, name '' = Some [''id'', ''name''] \<and>
   Call_get_data_report ''id,val'' ''id,val'' ''A'' ''B'' (Some [''id'', ''name'']) []
     \<in> set (trace (example_tab py_float (sample_library sample_report [])
                      (sample_example ''A'' ''B'' ''id, name '' '''') 0))"
proof -
  let ?ex = "sample_example ''A'' ''B'' ''id, name '' ''''"
  let ?lib = "sample_library sample_report []"
  have th: "parse_thresholds py_float (thresholds_raw ?ex) = Inr []"
    by (simp add: sample_example_def parser_eval)
  have run: "Call_get_data_report ''id,val'' ''id,val'' ''A'' ''B''
               (parse_grouping_columns ''id, name '') []
             \<in> set (trace (example_tab py_float ?lib ?ex 0))"
    using example_tab_reaches [of ?ex py_float "[]" ?lib 0 "''id,val''" "Suc 0" "''id,val''" "Suc (Suc 0)"]
      th sample_read_csv
    by (simp add: sample_example_def)
  have blank: "parse_grouping_columns ''  '' = None"
    using grouping_columns_parse [where s = "''  ''", THEN conjunct1] by (simp add: py_isspace_def)
  have names: "parse_grouping_columns ''id, name '' = Some [''id'', ''name'']"
    using grouping_columns_parse [where s = "''id, name ''", THEN conjunct1]
    by (simp add: py_isspace_def py_strip_def)
  from run names blank show ?thesis by simp
qed

text \<open>
  The claim as it was stated promises the list of stripped names for every non-empty text;
  the text of one blank is not empty, and the parser gives \<open>None\<close> for it.
\<close>

theorem grouping_columns_blank_counterexample:
  "'' '' \<noteq> '''' \<and>
   parse_grouping_columns '' '' \<noteq> Some (map py_strip (py_split (CHR '','') '' ''))"
  by (simp add: parse_grouping_columns_def py_strip_def py_isspace_def)

lemma py_split_hd: "\<exists>fs. py_split c s = takeWhile (\<lambda>x. x \<noteq> c) s # fs"
  by (induction s) (auto split: list.splits)

lemma split_at_first:
  "c \<in> set e \<Longrightarrow>
     e = takeWhile (\<lambda>x. x \<noteq> c) e @ c # tl (dropWhile (\<lambda>x. x \<noteq> c) e)"
proof -
  assume "c \<in> set e"
  then have ne: "dropWhile (\<lambda>x. x \<noteq> c) e \<noteq> []"
    by (simp add: dropWhile_eq_Nil_conv)
  then have "hd (dropWhile (\<lambda>x. x \<noteq> c) e) = c"
    using hd_dropWhile [of "\<lambda>x. x \<noteq> c" e] by simp
  with ne have "dropWhile (\<lambda>x. x \<noteq> c) e = c # tl (dropWhile (\<lambda>x. x \<noteq> c) e)"
    by (cases "dropWhile (\<lambda>x. x \<noteq> c) e") auto
  then show ?thesis
    using takeWhile_dropWhile_id [of "\<lambda>x. x \<noteq> c" e] by simp
qed

lemma right_hand_side_None_iff: "right_hand_side e = None \<longleftrightarrow> CHR ''='' \<notin> set e"
  by (simp add: right_hand_side_def)

lemma entry_value_of_right_hand_side:
  assumes "right_hand_side e = Some r"
  shows "entry_value e = Some (takeWhile (\<lambda>c. c \<noteq> CHR ''='') r)"
proof -
  let ?k = "takeWhile (\<lambda>x. x \<noteq> CHR ''='') e"
  from assms have mem: "CHR ''='' \<in> set e" and r: "r = tl (dropWhile (\<lambda>c. c \<noteq> CHR ''='') e)"
    by (auto simp: right_hand_side_def split: if_splits)
  from split_at_first [OF mem] r have e: "e = ?k @ CHR ''='' # r" by simp
  have "CHR ''='' \<notin> set ?k" by (auto dest: set_takeWhileD)
  then have "py_split (CHR ''='') (?k @ CHR ''='' # r) = ?k # py_split (CHR ''='') r"
    by (rule py_split_append)
  with e have sp: "py_split (CHR ''='') e = ?k # py_split (CHR ''='') r" by simp
  obtain fs where "py_split (CHR ''='') r = takeWhile (\<lambda>x. x \<noteq> CHR ''='') r # fs"
    using py_split_hd [of "CHR ''=''" r] by blast
  with sp show ?thesis by (simp add: entry_value_def)
qed

text \<open>
  Claim C5, as amended.  The field the parser reads as the value is the right-hand side up
  to its first \<open>=\<close>; for an entry with one \<open>=\<close> it is the whole right-hand side, so such an
  entry is malformed exactly when it has no numeric field, and an entry without \<open>=\<close> is
  both.  When the thresholds text has an entry with no \<open>=\<close> or with a field that \<open>float\<close>
  rejects, the parser raises IndexError or ValueError, and a tab whose button was pressed
  ends with that exception after its two headings: it reads no CSV and never calls the
  core.
\<close>

theorem entry_without_numeric_field_stops_before_core:
  "(right_hand_side e = None \<longleftrightarrow> CHR ''='' \<notin> set e) \<and>
   (right_hand_side e = Some r \<longrightarrow>
      entry_value e = Some (takeWhile (\<lambda>c. c \<noteq> CHR ''='') r)) \<and>
   (CHR ''='' \<notin> set e \<longrightarrow> malformed fl e \<and> no_numeric_field fl e) \<and>
   (right_hand_side e = Some r \<and> CHR ''='' \<notin> set r \<longrightarrow>
      (malformed fl e \<longleftrightarrow> no_numeric_field fl e)) \<and>
   (no_numeric_field fl e \<longleftrightarrow>
      CHR ''='' \<notin> set e \<or>
      (\<exists>t. right_hand_side e = Some t \<and> fl (takeWhile (\<lambda>c. c \<noteq> CHR ''='') t) = None)) \<and>
   (e \<in> set (threshold_entries s) \<and> no_numeric_field fl e \<longrightarrow>
      (\<exists>err. (err = IndexError \<or> err = ValueError) \<and> parse_thresholds fl s = Inl err \<and>
         (calculate_differences_upload up \<and> thresholds_upload up = s \<longrightarrow>
            upload_tab fl lib up s0 =
              (Raised err,
               [St_markdown ''### Upload your data'', St_markdown ''### Define thresholds''], s0)) \<and>
         (calculate_differences_raw ex \<and> thresholds_raw ex = s \<longrightarrow>
            example_tab fl lib ex s0 =
              (Raised err,
               [St_markdown ''### Use example data'', St_markdown ''### Define thresholds''], s0))))"
proof -
  have none: "right_hand_side e = None \<longleftrightarrow> CHR ''='' \<notin> set e"
    by (rule right_hand_side_None_iff)
  have field: "right_hand_side e = Some r \<longrightarrow>
      entry_value e = Some (takeWhile (\<lambda>c. c \<noteq> CHR ''='') r)"
    by (simp add: entry_value_of_right_hand_side)
  have missing: "CHR ''='' \<notin> set e \<longrightarrow> malformed fl e \<and> no_numeric_field fl e"
    using entry_value_None_iff [of e]
    by (auto simp: malformed_def no_numeric_field_def right_hand_side_def split: option.splits)
  have one: "right_hand_side e = Some r \<and> CHR ''='' \<notin> set r \<longrightarrow>
      (malformed fl e \<longleftrightarrow> no_numeric_field fl e)"
  proof
    assume a: "right_hand_side e = Some r \<and> CHR ''='' \<notin> set r"
    then have "takeWhile (\<lambda>c. c \<noteq> CHR ''='') r = r" by (auto simp: takeWhile_eq_all_conv)
    with a entry_value_of_right_hand_side [of e r] have "entry_value e = Some r" by simp
    with a show "malformed fl e \<longleftrightarrow> no_numeric_field fl e"
      by (simp add: malformed_def no_numeric_field_def)
  qed
  have char: "no_numeric_field fl e \<longleftrightarrow>
      CHR ''='' \<notin> set e \<or>
      (\<exists>t. right_hand_side e = Some t \<and> fl (takeWhile (\<lambda>c. c \<noteq> CHR ''='') t) = None)"
  proof (cases "right_hand_side e")
    case None
    then have "CHR ''='' \<notin> set e" by (simp add: right_hand_side_None_iff)
    with None missing show ?thesis by simp
  next
    case (Some t)
    then have "CHR ''='' \<in> set e" using right_hand_side_None_iff [of e] by auto
    with Some entry_value_of_right_hand_side [OF Some] show ?thesis
      by (simp add: no_numeric_field_def)
  qed
  have stops: "e \<in> set (threshold_entries s) \<and> no_numeric_field fl e \<longrightarrow>
      (\<exists>err. (err = IndexError \<or> err = ValueError) \<and> parse_thresholds fl s = Inl err \<and>
         (calculate_differences_upload up \<and> thresholds_upload up = s \<longrightarrow>
            upload_tab fl lib up s0 =
              (Raised err,
               [St_markdown ''### Upload your data'', St_markdown ''### Define thresholds''], s0)) \<and>
         (calculate_differences_raw ex \<and> thresholds_raw ex = s \<longrightarrow>
            example_tab fl lib ex s0 =
              (Raised err,
               [St_markdown ''### Use example data'', St_markdown ''### Define thresholds''], s0)))"
  proof
    assume a: "e \<in> set (threshold_entries s) \<and> no_numeric_field fl e"
    then have ne: "e \<noteq> ''''" by (metis threshold_entries_nonempty)
    from dict_comprehension_fail [of e "threshold_entries s" fl "[]"] a ne
    obtain err where err: "err = IndexError \<or> err = ValueError" "parse_thresholds fl s = Inl err"
      by (auto simp: parse_thresholds_entries)
    have "calculate_differences_upload up \<and> thresholds_upload up = s \<longrightarrow>
            upload_tab fl lib up s0 =
              (Raised err,
               [St_markdown ''### Upload your data'', St_markdown ''### Define thresholds''], s0)"
      using err(2) by (auto simp: upload_tab_parse_error)
    moreover have "calculate_differences_raw ex \<and> thresholds_raw ex = s \<longrightarrow>
            example_tab fl lib ex s0 =
              (Raised err,
               [St_markdown ''### Use example data'', St_markdown ''### Define thresholds''], s0)"
      using err(2) by (auto simp: example_tab_parse_error)
    ultimately show "\<exists>err. (err = IndexError \<or> err = ValueError) \<and> parse_thresholds fl s = Inl err \<and>
         (calculate_differences_upload up \<and> thresholds_upload up = s \<longrightarrow>
            upload_tab fl lib up s0 =
              (Raised err,
               [St_markdown ''### Upload your data'', St_markdown ''### Define thresholds''], s0)) \<and>
         (calculate_differences_raw ex \<and> thresholds_raw ex = s \<longrightarrow>
            example_tab fl lib ex s0 =
              (Raised err,
               [St_markdown ''### Use example data'', St_markdown ''### Define thresholds''], s0))"
      using err by blast
  qed
  from none field missing one char stops show ?thesis by (intro conjI)
qed

theorem entry_without_numeric_field_stops_before_core_witness:
  "''val=abc'' \<in> set (threshold_entries ''id=1, val=abc'') \<and>
   right_hand_side ''val=abc'' = Some ''abc'' \<and>
   malformed py_float ''val=abc'' \<and> no_numeric_field py_float ''val=abc'' \<and>
   (\<exists>err. upload_tab py_float (sample_library sample_report [])
             (sample_upload (Some ''id,val'') (Some ''id,val'') ''A'' ''B'' '''' ''id=1, val=abc'') 0 =
           (Raised err,
            [St_markdown ''### Upload your data'', St_markdown ''### Define thresholds''], 0))"
proof -
  let ?up = "sample_upload (Some ''id,val'') (Some ''id,val'') ''A'' ''B'' '''' ''id=1, val=abc''"
  have e: "''val=abc'' \<in> set (threshold_entries ''id=1, val=abc'')"
    by (simp add: parser_eval)
  have r: "right_hand_side ''val=abc'' = Some ''abc''"
    by (simp add: right_hand_side_def)
  have w: "malformed py_float ''val=abc''"
    by (simp add: malformed_def right_hand_side_def float_eval)
  have one: "right_hand_side ''val=abc'' = Some ''abc'' \<and> CHR ''='' \<notin> set ''abc''"
    using r by simp
  from entry_without_numeric_field_stops_before_core
         [where fl = py_float and e = "''val=abc''" and r = "''abc''",
          THEN conjunct2, THEN conjunct2, THEN conjunct2, THEN conjunct1, THEN mp, OF one] w
  have m: "no_numeric_field py_float ''val=abc''" by simp
  have b: "calculate_differences_upload ?up \<and> thresholds_upload ?up = ''id=1, val=abc''"
    by (simp add: sample_upload_def)
  from entry_without_numeric_field_stops_before_core
         [where fl = py_float and e = "''val=abc''" and s = "''id=1, val=abc''" and up = ?up
            and lib = "sample_library sample_report []" and ?s0.0 = 0,
          THEN conjunct2, THEN conjunct2, THEN conjunct2, THEN conjunct2, THEN conjunct2,
          THEN mp, OF conjI [OF e m]] b
  have "\<exists>err. upload_tab py_float (sample_library sample_report []) ?up 0 =
           (Raised err,
            [St_markdown ''### Upload your data'', St_markdown ''### Define thresholds''], 0)"
    by blast
  with e r w m show ?thesis by blast
qed

text \<open>
  The claim as it was stated covers every entry whose right-hand side is not numeric.  The
  entry \<open>col=1=abc\<close> has the right-hand side \<open>1=abc\<close>, which \<open>float\<close> rejects; the parser
  reads the field \<open>1\<close> only, and the example tab calls the core with the threshold 1 for
  \<open>col\<close>.
\<close>

theorem malformed_entry_accepted_counterexample:
  "''col=1=abc'' \<in> set (threshold_entries ''col=1=abc'') \<and>
   right_hand_side ''col=1=abc'' = Some ''1=abc'' \<and>
   py_float ''1=abc'' = None \<and>
   malformed py_float ''col=1=abc'' \<and>
   parse_thresholds py_float ''col=1=abc'' = Inr [(''col'', Finite 1)] \<and>
   Call_get_data_report ''id,val'' ''id,val'' ''A'' ''B'' None [(''col'', Finite 1)]
     \<in> set (trace (example_tab py_float (sample_library sample_report [])
                      (sample_example ''A'' ''B'' '''' ''col=1=abc'') 0))"
proof -
  let ?ex = "sample_example ''A'' ''B'' '''' ''col=1=abc''"
  let ?lib = "sample_library sample_report []"
  have e: "''col=1=abc'' \<in> set (threshold_entries ''col=1=abc'')"
    by (simp add: parser_eval)
  have r: "right_hand_side ''col=1=abc'' = Some ''1=abc''"
    by (simp add: right_hand_side_def)
  have f: "py_float ''1=abc'' = None"
    by (simp add: float_eval)
  from r f have m: "malformed py_float ''col=1=abc''"
    by (simp add: malformed_def)
  have p: "parse_thresholds py_float ''col=1=abc'' = Inr [(''col'', Finite 1)]"
    by (simp add: parser_eval float_eval)
  have g: "parse_grouping_columns '''' = None"
    by (simp add: parse_grouping_columns_def py_strip_def)
  have run: "Call_get_data_report ''id,val'' ''id,val'' ''A'' ''B'' None [(''col'', Finite 1)]
     \<in> set (trace (example_tab py_float ?lib ?ex 0))"
    using example_tab_reaches [of ?ex py_float "[(''col'', Finite 1)]" ?lib 0
            "''id,val''" "Suc 0" "''id,val''" "Suc (Suc 0)"] p g sample_read_csv
    by (simp add: sample_example_def)
  from e r f m p run show ?thesis by (intro conjI)
qed




text \<open>
  Claim C10.  For an entry with more than one \<open>=\<close>, the value is the \<open>float\<close> of the text
  between the first and the second \<open>=\<close>, and what follows the second \<open>=\<close> plays no part.
  When several entries name one column, the mapping holds the value of the last of them.
\<close>

theorem thresholds_extra_equals_and_duplicates:
  "(CHR ''='' \<notin> set k \<and> CHR ''='' \<notin> set r \<longrightarrow>
      threshold_item fl (k @ ''='' @ r @ ''='' @ x) =
        (case fl r of None \<Rightarrow> Inl ValueError | Some v \<Rightarrow> Inr (k, v))) \<and>
   (parse_thresholds fl s = Inr d \<and> threshold_entries s = pre @ e # post \<and>
    entry_key e \<notin> entry_key ` set post \<longrightarrow>
      (\<exists>r. entry_value e = Some r \<and> map_of d (entry_key e) = fl r))"
proof (intro conjI impI)
  assume "CHR ''='' \<notin> set k \<and> CHR ''='' \<notin> set r"
  then have "py_split (CHR ''='') (k @ ''='' @ r @ ''='' @ x) = k # r # py_split (CHR ''='') x"
    by (simp add: py_split_append)
  then show "threshold_item fl (k @ ''='' @ r @ ''='' @ x) =
        (case fl r of None \<Rightarrow> Inl ValueError | Some v \<Rightarrow> Inr (k, v))"
    by (simp add: threshold_item_def py_index_def)
next
  assume a: "parse_thresholds fl s = Inr d \<and> threshold_entries s = pre @ e # post \<and>
    entry_key e \<notin> entry_key ` set post"
  then have "e \<in> set (threshold_entries s)" by simp
  then have ne: "e \<noteq> ''''" by (rule threshold_entries_nonempty)
  from a have run: "dict_comprehension fl [] (pre @ e # post) = Inr d"
    by (metis parse_thresholds_entries)
  from a have later: "\<forall>t \<in> set post. t \<noteq> '''' \<longrightarrow> entry_key t \<noteq> entry_key e"
    by (metis imageI)
  show "\<exists>r. entry_value e = Some r \<and> map_of d (entry_key e) = fl r"
    by (rule dict_comprehension_last [OF run ne later])
qed

theorem thresholds_extra_equals_and_duplicates_witness:
  "threshold_item py_float ''col=1=2'' = Inr (''col'', Finite 1) \<and>
   parse_thresholds py_float ''a=1, b=2, a=3'' = Inr [(''a'', Finite 3), (''b'', Finite 2)] \<and>
   threshold_entries ''a=1, b=2, a=3'' = [''a=1'', ''b=2''] @ ''a=3'' # [] \<and>
   map_of [(''a'', Finite 3), (''b'', Finite 2)] (entry_key ''a=3'') = py_float ''3''"
proof -
  have item: "threshold_item py_float ''col=1=2'' = Inr (''col'', Finite 1)"
    using thresholds_extra_equals_and_duplicates [where k = "''col''" and r = "''1''" and x = "''2''" and fl = py_float, THEN conjunct1]
    by (simp add: float_eval)
  have p: "parse_thresholds py_float ''a=1, b=2, a=3'' = Inr [(''a'', Finite 3), (''b'', Finite 2)]"
    by (simp add: parser_eval float_eval)
  have es: "threshold_entries ''a=1, b=2, a=3'' = [''a=1'', ''b=2''] @ ''a=3'' # []"
    by (simp add: parser_eval)
  have v: "entry_value ''a=3'' = Some ''3''" by (simp add: parser_eval)
  from thresholds_extra_equals_and_duplicates
         [where fl = py_float and s = "''a=1, b=2, a=3''" and d = "[(''a'', Finite 3), (''b'', Finite 2)]"
            and pre = "[''a=1'', ''b=2'']" and e = "''a=3''" and post = "[]", THEN conjunct2] p es v
  have "map_of [(''a'', Finite 3), (''b'', Finite 2)] (entry_key ''a=3'') = py_float ''3''"
    by simp
  with item p es show ?thesis by simp
qed

section \<open>Runs of \<open>get_differences\<close>\<close>

lemma total_rows_pos: "0 < total_rows report"
  by (simp add: total_rows_def)

lemma py_truediv_total_rows:
  "py_truediv a (total_rows report) = Inr (of_int a / of_int (total_rows report))"
  using total_rows_pos [of report] by (simp add: py_truediv_def)

lemma get_differences_raised:
  "get_data_report lib d1 d2 n1 n2 gc th s0 = (None, w1, s1) \<Longrightarrow>
   get_differences lib d1 d2 n1 n2 gc th s0 =
     (Raised ExternalError,
      [St_spinner ''Generating report...'', Call_get_data_report d1 d2 n1 n2 gc th], s1)"
  by (simp add: get_differences_def)

lemma get_differences_ending:
  "ending (get_differences lib d1 d2 n1 n2 gc th s0) = Raised ExternalError \<or>
   ending (get_differences lib d1 d2 n1 n2 gc th s0) = Returned"
  by (auto simp: get_differences_def ending_def Let_def py_truediv_total_rows
        split: prod.splits option.splits)

lemma get_differences_metric:
  "get_data_report lib d1 d2 n1 n2 gc th s0 = (Some report, w1, s1) \<Longrightarrow>
   get_dataframe lib report s1 = (rows, w2, s2) \<Longrightarrow>
   get_number_of_row_differences lib report s2 = (shown_value, w3, s3) \<Longrightarrow>
   get_number_of_row_differences lib report s3 = (again, w4, s4) \<Longrightarrow>
   St_metric l v c d \<in> set (trace (get_differences lib d1 d2 n1 n2 gc th s0)) \<longleftrightarrow>
     l = ''Number of Row Differences'' \<and> v = shown_value \<and>
     c = (if shown_value > 0 then ''inverse'' else ''normal'') \<and>
     d = py_round (of_int again / of_int (total_rows report) * 100) 4"
  by (auto simp: get_differences_def trace_def Let_def py_truediv_total_rows
        split: prod.splits option.splits)





lemma get_differences_None_no_warning:
  "St_warning w \<notin> set (trace (get_differences lib d1 d2 n1 n2 None th s0))"
  by (auto simp: get_differences_def trace_def Let_def py_truediv_total_rows
        split: prod.splits option.splits)

lemma py_round_zero: "py_round 0 n = 0"
  by (simp add: py_round_def round_half_even_def)

lemmas run_eval =
  get_differences_def sample_library_def spec_get_number_of_row_differences_def
  sample_report_def py_truediv_def total_rows_def trace_def ending_def Let_def

lemma spec_count_pure: "pure_derivation spec_get_number_of_row_differences"
  by (simp add: pure_derivation_def spec_get_number_of_row_differences_def)

section \<open>The claims about \<open>get_differences\<close> and the tabs\<close>

text \<open>
  Claim C2.  The claim asks that every warning recorded while the report is generated is
  shown, with or without grouping columns.  The loop over \<open>w\<close> at lines 99--101 stands
  inside the branch \<open>grouping_columns is not None\<close>: run on a library that emits one
  warning, \<open>get_differences\<close> shows it when grouping columns are given, and returns
  without showing it when they are \<open>None\<close>.
\<close>

theorem warnings_not_shown_without_grouping:
  "St_warning ''Column extra is only in one source''
     \<in> set (trace (get_differences (sample_library sample_report [''Column extra is only in one source''])
                      ''id,val'' ''id,val'' ''A'' ''B'' (Some [''id'']) [] 0)) \<and>
   ending (get_differences (sample_library sample_report [''Column extra is only in one source''])
             ''id,val'' ''id,val'' ''A'' ''B'' None [] 0) = Returned \<and>
   St_warning ''Column extra is only in one source''
     \<notin> set (trace (get_differences (sample_library sample_report [''Column extra is only in one source''])
                      ''id,val'' ''id,val'' ''A'' ''B'' None [] 0))"
  by (simp add: run_eval)

lemma get_differences_returned:
  "get_data_report lib d1 d2 n1 n2 gc th s0 = (Some report, w1, s1) \<Longrightarrow>
   ending (get_differences lib d1 d2 n1 n2 gc th s0) = Returned"
  by (auto simp: get_differences_def ending_def Let_def py_truediv_total_rows
        split: prod.splits option.splits)

lemma total_rows_nonneg_lengths:
  "0 \<le> df0_length report \<Longrightarrow> 0 \<le> df1_length report \<Longrightarrow>
   total_rows report =
     (if df0_length report + df1_length report = 0 then 1
      else df0_length report + df1_length report)"
  by (simp add: total_rows_def)

text \<open>
  Claim C3.  No run of \<open>get_differences\<close> ends with ZeroDivisionError: the division of
  line 73 by \<open>total_rows\<close> always has a result.  For lengths that are row counts (not
  negative), \<open>total_rows\<close> is 1 when the two lengths sum to zero and their sum otherwise.
  In a run whose report was generated, the one metric shown has the first count as its
  value and, as its percentage, the second count divided by that denominator, times 100,
  rounded to 4 digits.  When the lengths sum to zero and the count lies between zero and
  that sum, as for every report of two empty sources, the percentage shown is 0.
\<close>

theorem denominator_never_zero:
  "ending (get_differences lib d1 d2 n1 n2 gc th s0) \<noteq> Raised ZeroDivisionError \<and>
   py_truediv x (total_rows report) = Inr (of_int x / of_int (total_rows report)) \<and>
   (0 \<le> df0_length report \<and> 0 \<le> df1_length report \<longrightarrow>
      total_rows report =
        (if df0_length report + df1_length report = 0 then 1
         else df0_length report + df1_length report)) \<and>
   (get_data_report lib d1 d2 n1 n2 gc th s0 = (Some report, w1, s1) \<and>
    get_dataframe lib report s1 = (rows, w2, s2) \<and>
    get_number_of_row_differences lib report s2 = (shown, w3, s3) \<and>
    get_number_of_row_differences lib report s3 = (again, w4, s4) \<and>
    0 \<le> df0_length report \<and> 0 \<le> df1_length report \<longrightarrow>
      ending (get_differences lib d1 d2 n1 n2 gc th s0) = Returned \<and>
      (\<forall>l v c d.
          St_metric l v c d \<in> set (trace (get_differences lib d1 d2 n1 n2 gc th s0)) \<longleftrightarrow>
            l = ''Number of Row Differences'' \<and> v = shown \<and>
            c = (if shown > 0 then ''inverse'' else ''normal'') \<and>
            d = py_round
                  (of_int again /
                   of_int (if df0_length report + df1_length report = 0 then 1
                           else df0_length report + df1_length report) * 100) 4) \<and>
      (df0_length report + df1_length report = 0 \<and>
       0 \<le> again \<and> again \<le> df0_length report + df1_length report \<longrightarrow>
         St_metric ''Number of Row Differences'' shown
             (if shown > 0 then ''inverse'' else ''normal'') 0
           \<in> set (trace (get_differences lib d1 d2 n1 n2 gc th s0))))"
proof -
  have never: "ending (get_differences lib d1 d2 n1 n2 gc th s0) \<noteq> Raised ZeroDivisionError"
    using get_differences_ending [of lib d1 d2 n1 n2 gc th s0] by auto
  have division: "py_truediv x (total_rows report) = Inr (of_int x / of_int (total_rows report))"
    by (rule py_truediv_total_rows)
  have denominator: "0 \<le> df0_length report \<and> 0 \<le> df1_length report \<longrightarrow>
      total_rows report =
        (if df0_length report + df1_length report = 0 then 1
         else df0_length report + df1_length report)"
    by (simp add: total_rows_nonneg_lengths)
  have shown: "get_data_report lib d1 d2 n1 n2 gc th s0 = (Some report, w1, s1) \<and>
    get_dataframe lib report s1 = (rows, w2, s2) \<and>
    get_number_of_row_differences lib report s2 = (shown, w3, s3) \<and>
    get_number_of_row_differences lib report s3 = (again, w4, s4) \<and>
    0 \<le> df0_length report \<and> 0 \<le> df1_length report \<longrightarrow>
      ending (get_differences lib d1 d2 n1 n2 gc th s0) = Returned \<and>
      (\<forall>l v c d.
          St_metric l v c d \<in> set (trace (get_differences lib d1 d2 n1 n2 gc th s0)) \<longleftrightarrow>
            l = ''Number of Row Differences'' \<and> v = shown \<and>
            c = (if shown > 0 then ''inverse'' else ''normal'') \<and>
            d = py_round
                  (of_int again /
                   of_int (if df0_length report + df1_length report = 0 then 1
                           else df0_length report + df1_length report) * 100) 4) \<and>
      (df0_length report + df1_length report = 0 \<and>
       0 \<le> again \<and> again \<le> df0_length report + df1_length report \<longrightarrow>
         St_metric ''Number of Row Differences'' shown
             (if shown > 0 then ''inverse'' else ''normal'') 0
           \<in> set (trace (get_differences lib d1 d2 n1 n2 gc th s0)))"
  proof (intro impI)
    assume a: "get_data_report lib d1 d2 n1 n2 gc th s0 = (Some report, w1, s1) \<and>
      get_dataframe lib report s1 = (rows, w2, s2) \<and>
      get_number_of_row_differences lib report s2 = (shown, w3, s3) \<and>
      get_number_of_row_differences lib report s3 = (again, w4, s4) \<and>
      0 \<le> df0_length report \<and> 0 \<le> df1_length report"
    then have gdr: "get_data_report lib d1 d2 n1 n2 gc th s0 = (Some report, w1, s1)"
      and f: "get_dataframe lib report s1 = (rows, w2, s2)"
      and g1: "get_number_of_row_differences lib report s2 = (shown, w3, s3)"
      and g2: "get_number_of_row_differences lib report s3 = (again, w4, s4)"
      and l0: "0 \<le> df0_length report" and l1: "0 \<le> df1_length report"
      by simp_all
    let ?den = "if df0_length report + df1_length report = 0 then 1
                else df0_length report + df1_length report"
    have den: "total_rows report = ?den"
      using l0 l1 by (rule total_rows_nonneg_lengths)
    have metric: "St_metric l v c d \<in> set (trace (get_differences lib d1 d2 n1 n2 gc th s0)) \<longleftrightarrow>
            l = ''Number of Row Differences'' \<and> v = shown \<and>
            c = (if shown > 0 then ''inverse'' else ''normal'') \<and>
            d = py_round (of_int again / of_int ?den * 100) 4" for l v c d
      using get_differences_metric [OF gdr f g1 g2, of l v c d] den by simp
    have zero: "St_metric ''Number of Row Differences'' shown
             (if shown > 0 then ''inverse'' else ''normal'') 0
           \<in> set (trace (get_differences lib d1 d2 n1 n2 gc th s0))"
      if z: "df0_length report + df1_length report = 0 \<and>
             0 \<le> again \<and> again \<le> df0_length report + df1_length report"
    proof -
      from z have "again = 0" by simp
      then have "py_round (of_int again / of_int ?den * 100) 4 = 0"
        by (simp add: py_round_zero)
      then show ?thesis using metric by simp
    qed
    from get_differences_returned [OF gdr] metric zero
    show "ending (get_differences lib d1 d2 n1 n2 gc th s0) = Returned \<and>
      (\<forall>l v c d.
          St_metric l v c d \<in> set (trace (get_differences lib d1 d2 n1 n2 gc th s0)) \<longleftrightarrow>
            l = ''Number of Row Differences'' \<and> v = shown \<and>
            c = (if shown > 0 then ''inverse'' else ''normal'') \<and>
            d = py_round (of_int again / of_int ?den * 100) 4) \<and>
      (df0_length report + df1_length report = 0 \<and>
       0 \<le> again \<and> again \<le> df0_length report + df1_length report \<longrightarrow>
         St_metric ''Number of Row Differences'' shown
             (if shown > 0 then ''inverse'' else ''normal'') 0
           \<in> set (trace (get_differences lib d1 d2 n1 n2 gc th s0)))"
      by blast
  qed
  from never division denominator shown show ?thesis by (intro conjI)
qed

theorem denominator_never_zero_witness:
  "ending (get_differences (sample_library sample_report []) ''id,val'' ''id,val''
             ''A'' ''B'' None [] 0) = Returned \<and>
   St_metric ''Number of Row Differences'' 2 ''inverse'' (666667 / 10000)
     \<in> set (trace (get_differences (sample_library sample_report []) ''id,val'' ''id,val''
                      ''A'' ''B'' None [] 0)) \<and>
   total_rows sample_report = 3 \<and>
   total_rows empty_report = 1 \<and>
   St_metric ''Number of Row Differences'' 0 ''normal'' 0
     \<in> set (trace (get_differences (sample_library empty_report []) ''id,val'' ''id,val''
                      ''A'' ''B'' None [] 0))"
proof -
  let ?lib = "sample_library sample_report []"
  let ?elib = "sample_library empty_report []"
  have h: "get_data_report ?lib ''id,val'' ''id,val'' ''A'' ''B'' None [] 0
             = (Some sample_report, [], Suc 0) \<and>
    get_dataframe ?lib sample_report (Suc 0) = (''rows'', [], Suc (Suc 0)) \<and>
    get_number_of_row_differences ?lib sample_report (Suc (Suc 0)) = (2, [], Suc (Suc 0)) \<and>
    get_number_of_row_differences ?lib sample_report (Suc (Suc 0)) = (2, [], Suc (Suc 0)) \<and>
    0 \<le> df0_length sample_report \<and> 0 \<le> df1_length sample_report"
    by (simp add: sample_library_def spec_get_number_of_row_differences_def sample_report_def)
  have h0: "get_data_report ?elib ''id,val'' ''id,val'' ''A'' ''B'' None [] 0
             = (Some empty_report, [], Suc 0) \<and>
    get_dataframe ?elib empty_report (Suc 0) = (''rows'', [], Suc (Suc 0)) \<and>
    get_number_of_row_differences ?elib empty_report (Suc (Suc 0)) = (0, [], Suc (Suc 0)) \<and>
    get_number_of_row_differences ?elib empty_report (Suc (Suc 0)) = (0, [], Suc (Suc 0)) \<and>
    0 \<le> df0_length empty_report \<and> 0 \<le> df1_length empty_report"
    by (simp add: sample_library_def spec_get_number_of_row_differences_def empty_report_def)
  note full = denominator_never_zero [THEN conjunct2, THEN conjunct2, THEN conjunct2, THEN mp, OF h]
  note none = denominator_never_zero [THEN conjunct2, THEN conjunct2, THEN conjunct2, THEN mp, OF h0]
  have r: "py_round (of_int 2 / of_int (if df0_length sample_report + df1_length sample_report = 0
              then 1 else df0_length sample_report + df1_length sample_report) * 100) 4
           = 666667 / 10000"
    by code_simp
  from full have ret: "ending (get_differences ?lib ''id,val'' ''id,val'' ''A'' ''B'' None [] 0) = Returned"
    by (rule conjunct1)
  from full [THEN conjunct2, THEN conjunct1]
  have "St_metric ''Number of Row Differences'' 2 ''inverse''
          (py_round (of_int 2 / of_int (if df0_length sample_report + df1_length sample_report = 0
              then 1 else df0_length sample_report + df1_length sample_report) * 100) 4)
        \<in> set (trace (get_differences ?lib ''id,val'' ''id,val'' ''A'' ''B'' None [] 0))"
    by simp
  then have m: "St_metric ''Number of Row Differences'' 2 ''inverse'' (666667 / 10000)
        \<in> set (trace (get_differences ?lib ''id,val'' ''id,val'' ''A'' ''B'' None [] 0))"
    by (simp only: r)
  have z: "df0_length empty_report + df1_length empty_report = 0 \<and>
           (0::int) \<le> 0 \<and> 0 \<le> df0_length empty_report + df1_length empty_report"
    by (simp add: empty_report_def)
  from none [THEN conjunct2, THEN conjunct2, THEN mp, OF z]
  have m0: "St_metric ''Number of Row Differences'' 0 ''normal'' 0
        \<in> set (trace (get_differences ?elib ''id,val'' ''id,val'' ''A'' ''B'' None [] 0))"
    by simp
  have t3: "total_rows sample_report = 3"
    using denominator_never_zero [where report = sample_report, THEN conjunct2, THEN conjunct2,
            THEN conjunct1]
    by (simp add: sample_report_def)
  have t1: "total_rows empty_report = 1"
    using denominator_never_zero [where report = empty_report, THEN conjunct2, THEN conjunct2,
            THEN conjunct1]
    by (simp add: empty_report_def)
  from ret m t3 t1 m0 show ?thesis by (intro conjI)
qed



text \<open>
  Claim C8.  The count of the spec is a pure derivation.  For every library whose
  \<open>get_number_of_row_differences\<close> is a pure derivation, the value shown by the metric
  is the number of row differences of the report, and the percentage shown is computed
  from that same number, although the two come from two calls.
\<close>

theorem metric_value_and_delta_agree:
  "pure_derivation spec_get_number_of_row_differences \<and>
   (pure_derivation (get_number_of_row_differences lib) \<and>
    get_data_report lib d1 d2 n1 n2 gc th s0 = (Some report, w1, s1) \<and>
    St_metric l v c d \<in> set (trace (get_differences lib d1 d2 n1 n2 gc th s0)) \<longrightarrow>
      (\<forall>s. fst (get_number_of_row_differences lib report s) = v) \<and>
      d = py_round (of_int v / of_int (total_rows report) * 100) 4)"
proof (intro conjI impI)
  show "pure_derivation spec_get_number_of_row_differences" by (rule spec_count_pure)
next
  assume a: "pure_derivation (get_number_of_row_differences lib) \<and>
    get_data_report lib d1 d2 n1 n2 gc th s0 = (Some report, w1, s1) \<and>
    St_metric l v c d \<in> set (trace (get_differences lib d1 d2 n1 n2 gc th s0))"
  then have same: "fst (get_number_of_row_differences lib report s) =
                   fst (get_number_of_row_differences lib report s')" for s s'
    by (simp add: pure_derivation_def)
  obtain rows w2 s2 where f: "get_dataframe lib report s1 = (rows, w2, s2)"
    by (metis prod_cases3)
  obtain x w3 s3 where g1: "get_number_of_row_differences lib report s2 = (x, w3, s3)"
    by (metis prod_cases3)
  obtain y w4 s4 where g2: "get_number_of_row_differences lib report s3 = (y, w4, s4)"
    by (metis prod_cases3)
  from same [of s2 s3] g1 g2 have xy: "y = x" by simp
  from a get_differences_metric [OF _ f g1 g2, of d1 d2 n1 n2 gc th s0 w1 l v c d]
  have vd: "v = x \<and> d = py_round (of_int y / of_int (total_rows report) * 100) 4"
    by simp
  with xy show "d = py_round (of_int v / of_int (total_rows report) * 100) 4" by simp
  show "\<forall>s. fst (get_number_of_row_differences lib report s) = v"
  proof
    fix s
    from same [of s s2] g1 vd show "fst (get_number_of_row_differences lib report s) = v"
      by simp
  qed
qed

theorem metric_value_and_delta_agree_witness:
  "pure_derivation (get_number_of_row_differences (sample_library sample_report [])) \<and>
   St_metric ''Number of Row Differences'' 2 ''inverse'' (666667 / 10000)
     \<in> set (trace (get_differences (sample_library sample_report []) ''id,val'' ''id,val''
                      ''A'' ''B'' None [] 0)) \<and>
   py_round (of_int 2 / of_int (total_rows sample_report) * 100) 4 = 666667 / 10000"
proof -
  let ?lib = "sample_library sample_report []"
  have p: "pure_derivation (get_number_of_row_differences ?lib)"
    using metric_value_and_delta_agree [THEN conjunct1] by (simp add: sample_library_def)
  have gdr: "get_data_report ?lib ''id,val'' ''id,val'' ''A'' ''B'' None [] 0 = (Some sample_report, [], Suc 0)"
    by (simp add: sample_library_def)
  have "\<exists>d. St_metric ''Number of Row Differences'' 2 ''inverse'' d
          \<in> set (trace (get_differences ?lib ''id,val'' ''id,val'' ''A'' ''B'' None [] 0))"
    by (simp add: get_differences_def sample_library_def spec_get_number_of_row_differences_def
          sample_report_def py_truediv_def total_rows_def trace_def Let_def)
  then obtain d where mem: "St_metric ''Number of Row Differences'' 2 ''inverse'' d
          \<in> set (trace (get_differences ?lib ''id,val'' ''id,val'' ''A'' ''B'' None [] 0))"
    by blast
  from metric_value_and_delta_agree
         [where lib = ?lib and report = sample_report, THEN conjunct2, THEN mp,
          OF conjI [OF p conjI [OF gdr mem]]]
  have d: "d = py_round (of_int 2 / of_int (total_rows sample_report) * 100) 4" by simp
  have r: "py_round (of_int 2 / of_int (total_rows sample_report) * 100) 4 = 666667 / 10000"
    by code_simp
  from d r have "d = 666667 / 10000" by (simp only:)
  with mem have mem': "St_metric ''Number of Row Differences'' 2 ''inverse'' (666667 / 10000)
          \<in> set (trace (get_differences ?lib ''id,val'' ''id,val'' ''A'' ''B'' None [] 0))"
    by (simp only:)
  show ?thesis by (intro conjI) (rule p, rule mem', rule r)
qed

text \<open>
  Claim C9, as amended.  In the upload tab the core is called only when both files are
  uploaded and both names are non-empty.  With the button pressed and a thresholds text
  that parses, a missing file or an empty name shows the error message and stops the run,
  with no CSV read and no report generated.  With a thresholds text that does not parse,
  the run ends with the parser's exception after the two headings, before the checks and
  with no message.  In the example tab the core is called with the names as typed, empty
  or not, whenever the thresholds parse and both texts are read.
\<close>

theorem upload_validation:
  "(Call_get_data_report a b n m g t \<in> set (trace (upload_tab fl lib up s0)) \<longrightarrow>
      df0_uploader up \<noteq> None \<and> df1_uploader up \<noteq> None \<and>
      df0_name_upload up \<noteq> '''' \<and> df1_name_upload up \<noteq> '''') \<and>
   (calculate_differences_upload up \<and> parse_thresholds fl (thresholds_upload up) = Inr th \<and>
    (df0_uploader up = None \<or> df1_uploader up = None) \<longrightarrow>
      upload_tab fl lib up s0 =
        (Stopped,
         [St_markdown ''### Upload your data'', St_markdown ''### Define thresholds'',
          St_error ''Please upload both data sources''], s0)) \<and>
   (calculate_differences_upload up \<and> parse_thresholds fl (thresholds_upload up) = Inr th \<and>
    df0_uploader up \<noteq> None \<and> df1_uploader up \<noteq> None \<and>
    (df0_name_upload up = '''' \<or> df1_name_upload up = '''') \<longrightarrow>
      upload_tab fl lib up s0 =
        (Stopped,
         [St_markdown ''### Upload your data'', St_markdown ''### Define thresholds'',
          St_error ''Please enter names for both data sources''], s0)) \<and>
   (calculate_differences_upload up \<and> parse_thresholds fl (thresholds_upload up) = Inl err \<longrightarrow>
      upload_tab fl lib up s0 =
        (Raised err,
         [St_markdown ''### Upload your data'', St_markdown ''### Define thresholds''], s0)) \<and>
   (calculate_differences_raw ex \<and> parse_thresholds fl (thresholds_raw ex) = Inr th' \<and>
    read_csv lib (df0_data_raw ex) s0' = (Some d1, s1) \<and>
    read_csv lib (df1_data_raw ex) s1 = (Some d2, s2) \<longrightarrow>
      Call_get_data_report d1 d2 (df0_name_raw ex) (df1_name_raw ex)
          (parse_grouping_columns (grouping_columns_raw ex)) th'
        \<in> set (trace (example_tab fl lib ex s0')))"
proof (intro conjI impI)
  assume "Call_get_data_report a b n m g t \<in> set (trace (upload_tab fl lib up s0))"
  from upload_tab_call [OF this]
  show "df0_uploader up \<noteq> None" and "df1_uploader up \<noteq> None"
    and "df0_name_upload up \<noteq> ''''" and "df1_name_upload up \<noteq> ''''"
    by simp_all
next
  assume "calculate_differences_upload up \<and> parse_thresholds fl (thresholds_upload up) = Inr th \<and>
    (df0_uploader up = None \<or> df1_uploader up = None)"
  then show "upload_tab fl lib up s0 =
        (Stopped,
         [St_markdown ''### Upload your data'', St_markdown ''### Define thresholds'',
          St_error ''Please upload both data sources''], s0)"
    by (auto simp: upload_tab_def after_def Let_def split: option.splits)
next
  assume "calculate_differences_upload up \<and> parse_thresholds fl (thresholds_upload up) = Inr th \<and>
    df0_uploader up \<noteq> None \<and> df1_uploader up \<noteq> None \<and>
    (df0_name_upload up = '''' \<or> df1_name_upload up = '''')"
  then show "upload_tab fl lib up s0 =
        (Stopped,
         [St_markdown ''### Upload your data'', St_markdown ''### Define thresholds'',
          St_error ''Please enter names for both data sources''], s0)"
    by (auto simp: upload_tab_def after_def Let_def split: option.splits)
next
  assume "calculate_differences_upload up \<and> parse_thresholds fl (thresholds_upload up) = Inl err"
  then show "upload_tab fl lib up s0 =
        (Raised err,
         [St_markdown ''### Upload your data'', St_markdown ''### Define thresholds''], s0)"
    by (simp add: upload_tab_parse_error)
next
  assume "calculate_differences_raw ex \<and> parse_thresholds fl (thresholds_raw ex) = Inr th' \<and>
    read_csv lib (df0_data_raw ex) s0' = (Some d1, s1) \<and>
    read_csv lib (df1_data_raw ex) s1 = (Some d2, s2)"
  then show "Call_get_data_report d1 d2 (df0_name_raw ex) (df1_name_raw ex)
          (parse_grouping_columns (grouping_columns_raw ex)) th'
        \<in> set (trace (example_tab fl lib ex s0'))"
    by (simp add: example_tab_reaches)
qed

theorem upload_validation_witness:
  "upload_tab py_float (sample_library sample_report [])
       (sample_upload None (Some ''id,val'') ''A'' ''B'' '''' '''') 0 =
     (Stopped,
      [St_markdown ''### Upload your data'', St_markdown ''### Define thresholds'',
       St_error ''Please upload both data sources''], 0) \<and>
   upload_tab py_float (sample_library sample_report [])
       (sample_upload (Some ''id,val'') (Some ''id,val'') ''A'' '''' '''' '''') 0 =
     (Stopped,
      [St_markdown ''### Upload your data'', St_markdown ''### Define thresholds'',
       St_error ''Please enter names for both data sources''], 0) \<and>
   Call_get_data_report ''id,val'' ''id,val'' '''' '''' None []
     \<in> set (trace (example_tab py_float (sample_library sample_report [])
                      (sample_example '''' '''' '''' '''') 0))"
proof -
  let ?lib = "sample_library sample_report []"
  let ?u1 = "sample_upload None (Some ''id,val'') ''A'' ''B'' '''' ''''"
  let ?u2 = "sample_upload (Some ''id,val'') (Some ''id,val'') ''A'' '''' '''' ''''"
  let ?ex = "sample_example '''' '''' '''' ''''"
  have e: "parse_thresholds py_float '''' = Inr []"
    by (simp add: parse_thresholds_def py_strip_def)
  have h1: "calculate_differences_upload ?u1 \<and>
            parse_thresholds py_float (thresholds_upload ?u1) = Inr [] \<and>
            (df0_uploader ?u1 = None \<or> df1_uploader ?u1 = None)"
    using e by (simp add: sample_upload_def)
  have h2: "calculate_differences_upload ?u2 \<and>
            parse_thresholds py_float (thresholds_upload ?u2) = Inr [] \<and>
            df0_uploader ?u2 \<noteq> None \<and> df1_uploader ?u2 \<noteq> None \<and>
            (df0_name_upload ?u2 = '''' \<or> df1_name_upload ?u2 = '''')"
    using e by (simp add: sample_upload_def)
  have h3: "calculate_differences_raw ?ex \<and>
            parse_thresholds py_float (thresholds_raw ?ex) = Inr [] \<and>
            read_csv ?lib (df0_data_raw ?ex) 0 = (Some ''id,val'', Suc 0) \<and>
            read_csv ?lib (df1_data_raw ?ex) (Suc 0) = (Some ''id,val'', Suc (Suc 0))"
    using e by (simp add: sample_example_def sample_library_def)
  have 1: "upload_tab py_float ?lib ?u1 0 =
     (Stopped,
      [St_markdown ''### Upload your data'', St_markdown ''### Define thresholds'',
       St_error ''Please upload both data sources''], 0)"
    by (rule upload_validation [where up = ?u1, THEN conjunct2, THEN conjunct1, THEN mp, OF h1])
  have 2: "upload_tab py_float ?lib ?u2 0 =
     (Stopped,
      [St_markdown ''### Upload your data'', St_markdown ''### Define thresholds'',
       St_error ''Please enter names for both data sources''], 0)"
    by (rule upload_validation [where up = ?u2, THEN conjunct2, THEN conjunct2, THEN conjunct1,
               THEN mp, OF h2])
  from upload_validation [where ex = ?ex and lib = ?lib and fl = py_float,
         THEN conjunct2, THEN conjunct2, THEN conjunct2, THEN conjunct2, THEN mp, OF h3]
  have 3: "Call_get_data_report ''id,val'' ''id,val'' '''' '''' None []
     \<in> set (trace (example_tab py_float ?lib ?ex 0))"
    by (simp add: sample_example_def parse_grouping_columns_def py_strip_def)
  from 1 2 3 show ?thesis by (intro conjI)
qed

text \<open>
  The claim as it was stated promises the error message whenever a file is missing; with
  no file uploaded and the thresholds text \<open>abc\<close>, the run ends with IndexError and shows
  no message.
\<close>

theorem upload_validation_counterexample:
  "calculate_differences_upload (sample_upload None None '''' '''' '''' ''abc'') \<and>
   df0_uploader (sample_upload None None '''' '''' '''' ''abc'') = None \<and>
   upload_tab py_float (sample_library sample_report []) (sample_upload None None '''' '''' '''' ''abc'') 0 =
     (Raised IndexError,
      [St_markdown ''### Upload your data'', St_markdown ''### Define thresholds''], 0)"
  by (simp add: upload_tab_def after_def sample_upload_def parse_thresholds_def
        threshold_item_def py_index_def py_strip_def py_isspace_def Let_def)

end
